theory Spec2Isabelle
  imports Main "HOL-Library.Word"
begin

section \<open>Python values shared by both scripts\<close>

text \<open>
  A Python \<open>str\<close> is modelled as a \<open>string\<close>, one \<open>char\<close> per code point (so the
  model covers text whose code points are below 256); file contents are lists of bytes.
\<close>

type_synonym bytes = "8 word list"

text \<open>
  What a \<open>try\<close> block can see: \<open>Exception cls msg\<close> is an instance of a subclass
  \<open>cls\<close> of \<open>Exception\<close> with \<open>str(e) = msg\<close>; \<open>KeyboardInterrupt\<close> derives from
  \<open>BaseException\<close> only, so \<open>except Exception\<close> does not catch it.
\<close>

datatype exn = Exception string string | KeyboardInterrupt

fun is_Exception :: "exn \<Rightarrow> bool" where
  "is_Exception (Exception cls msg) = True"
| "is_Exception KeyboardInterrupt = False"

fun str_exn :: "exn \<Rightarrow> string" where
  "str_exn (Exception cls msg) = msg"
| "str_exn KeyboardInterrupt = []"

text \<open>\<open>str.isspace\<close> on one code point below 256, and \<open>str.strip()\<close>.\<close>

definition isspace :: "char \<Rightarrow> bool" where
  "isspace c \<longleftrightarrow>
     c \<in> {CHR 0x09, CHR 0x0A, CHR 0x0B, CHR 0x0C, CHR 0x0D,
          CHR 0x1C, CHR 0x1D, CHR 0x1E, CHR 0x1F, CHR 0x20, CHR 0x85, CHR 0xA0}"

definition strip :: "string \<Rightarrow> string" where
  "strip s = rev (dropWhile isspace (rev (dropWhile isspace s)))"

text \<open>\<open>s.startswith(p)\<close>.\<close>

fun startswith :: "string \<Rightarrow> string \<Rightarrow> bool" where
  "startswith s [] = True"
| "startswith [] (p # ps) = False"
| "startswith (c # cs) (p # ps) = (c = p \<and> startswith cs ps)"

text \<open>Truthiness of an optional string: \<open>None\<close> and \<open>''\<close> are falsy.\<close>

fun truthy :: "string option \<Rightarrow> bool" where
  "truthy None = False"
| "truthy (Some s) = (s \<noteq> [])"

text \<open>\<open>a or b\<close> for an optional string \<open>a\<close> and a string \<open>b\<close>.\<close>

fun py_or :: "string option \<Rightarrow> string \<Rightarrow> string" where
  "py_or None d = d"
| "py_or (Some s) d = (if s \<noteq> [] then s else d)"

section \<open>Loading the address list\<close>

text \<open>
  The recipient source is what opening the file and iterating over it yields: the
  lines (each with its line end), or the exception raised by \<open>open\<close> or by decoding.
\<close>

type_synonym source = "exn + string list"

text \<open>
  \<open>FileDeliveryService.load_delivery_list\<close>: the loop over \<open>enumerate(file, 1)\<close>, with the
  list \<open>emails\<close> and the warnings logged so far (line number and text).
\<close>

fun load_loop ::
  "nat \<Rightarrow> string list \<Rightarrow> string list \<Rightarrow> (nat \<times> string) list
     \<Rightarrow> string list \<times> (nat \<times> string) list" where
  "load_loop line_num [] emails warnings = (emails, warnings)"
| "load_loop line_num (line # rest) emails warnings =
     (let email = strip line in
      if email \<noteq> [] \<and> \<not> startswith email ''#'' then
        if CHR ''@'' \<in> set email then
          load_loop (line_num + 1) rest (emails @ [email]) warnings
        else
          load_loop (line_num + 1) rest emails (warnings @ [(line_num, email)])
      else load_loop (line_num + 1) rest emails warnings)"

definition load_delivery_list :: "source \<Rightarrow> exn + string list" where
  "load_delivery_list src =
     (case src of
        Inl e \<Rightarrow> Inl e
      | Inr lines \<Rightarrow> Inr (fst (load_loop 1 lines [] [])))"

definition load_delivery_warnings :: "source \<Rightarrow> (nat \<times> string) list" where
  "load_delivery_warnings src =
     (case src of
        Inl e \<Rightarrow> []
      | Inr lines \<Rightarrow> snd (load_loop 1 lines [] []))"

text \<open>\<open>load_recipients\<close> of \<open>email_sender.py\<close>: a comprehension, then the emptiness check.\<close>

definition load_recipients :: "source \<Rightarrow> exn + string list" where
  "load_recipients src =
     (case src of
        Inl e \<Rightarrow> Inl e
      | Inr lines \<Rightarrow>
          (let recipients =
                 map strip (filter (\<lambda>line. strip line \<noteq> [] \<and> CHR ''@'' \<in> set line) lines)
           in if recipients = [] then
                Inl (Exception ''ValueError''
                       ''No valid email addresses found in recipients file'')
              else Inr recipients))"

text \<open>
  The line filter of \<open>load_delivery_list\<close>, on a stripped line: not empty, not a comment,
  with an \<open>@\<close>.
\<close>

definition accepted :: "string \<Rightarrow> bool" where
  "accepted email \<longleftrightarrow> email \<noteq> [] \<and> \<not> startswith email ''#'' \<and> CHR ''@'' \<in> set email"

text \<open>
  The loader as the specification words it: the distinct addresses, the first occurrence
  of each kept in place.
\<close>

fun dedup_first :: "string list \<Rightarrow> string list \<Rightarrow> string list" where
  "dedup_first seen [] = []"
| "dedup_first seen (x # xs) =
     (if x \<in> set seen then dedup_first seen xs else x # dedup_first (x # seen) xs)"

definition spec_load :: "string list \<Rightarrow> string list" where
  "spec_load lines = dedup_first [] (filter accepted (map strip lines))"

section \<open>Composing a message body: \<open>str.format\<close>\<close>

text \<open>
  \<open>email_sender.create_email_message\<close> builds the body with
  \<open>body.format(sender_name=sender_name)\<close>. The model follows CPython's formatter
  (\<open>Objects/stringlib/unicode_format.h\<close>): literal text, doubled braces, and one
  replacement field at a time, each looked up as soon as it has been parsed.
\<close>

datatype fmt_error = KeyError string | IndexError | ValueError | AttributeError | TypeError

text \<open>Put a character in front of the text a scanner returns.\<close>

definition consl :: "char \<Rightarrow> fmt_error + (string \<times> 'a) \<Rightarrow> fmt_error + (string \<times> 'a)" where
  "consl c r = (case r of Inl e \<Rightarrow> Inl e | Inr (xs, y) \<Rightarrow> Inr (c # xs, y))"

text \<open>
  The field name runs to the first \<open>}\<close>, \<open>:\<close> or \<open>!\<close> outside square brackets; a \<open>{\<close>
  in it, or the end of the string, is a \<open>ValueError\<close>. The flag says that the scan is
  inside \<open>[...]\<close>. Returns the name, the terminator and the text after it.
\<close>

fun scan_field_name :: "bool \<Rightarrow> string \<Rightarrow> fmt_error + (string \<times> char \<times> string)" where
  "scan_field_name in_bracket [] = Inl ValueError"
| "scan_field_name True (c # cs) = consl c (scan_field_name (c \<noteq> CHR '']'') cs)"
| "scan_field_name False (c # cs) =
     (if c = CHR ''{'' then Inl ValueError
      else if c = CHR ''['' then consl c (scan_field_name True cs)
      else if c = CHR ''}'' \<or> c = CHR '':'' \<or> c = CHR ''!'' then Inr ([], c, cs)
      else consl c (scan_field_name False cs))"

text \<open>
  The format spec runs to the \<open>}\<close> that closes the field; \<open>count\<close> is the nesting
  depth, 1 at the start. Returns the spec and the text after the closing brace.
\<close>

fun scan_spec :: "nat \<Rightarrow> string \<Rightarrow> fmt_error + (string \<times> string)" where
  "scan_spec count [] = Inl ValueError"
| "scan_spec count (c # cs) =
     (if c = CHR ''{'' then consl c (scan_spec (count + 1) cs)
      else if c = CHR ''}'' then
        (if count - 1 = 0 then Inr ([], cs) else consl c (scan_spec (count - 1) cs))
      else consl c (scan_spec count cs))"

text \<open>
  \<open>parse_field\<close>, called on the text after an opening brace: the field name, the
  conversion character (after \<open>!\<close>), the format spec (after \<open>:\<close>) and the rest.
\<close>

definition parse_field ::
  "string \<Rightarrow> fmt_error + (string \<times> char option \<times> string \<times> string)" where
  "parse_field s =
     (case scan_field_name False s of
        Inl e \<Rightarrow> Inl e
      | Inr (field_name, c, cs) \<Rightarrow>
          if c = CHR ''}'' then Inr (field_name, None, [], cs)
          else if c = CHR ''!'' then
            (case cs of
               [] \<Rightarrow> Inl ValueError
             | conversion # cs1 \<Rightarrow>
                 (case cs1 of
                    [] \<Rightarrow> Inl ValueError
                  | c2 # cs2 \<Rightarrow>
                      if c2 = CHR ''}'' then Inr (field_name, Some conversion, [], cs2)
                      else if c2 \<noteq> CHR '':'' then Inl ValueError
                      else (case scan_spec 1 cs2 of
                              Inl e \<Rightarrow> Inl e
                            | Inr (spec, rest) \<Rightarrow>
                                Inr (field_name, Some conversion, spec, rest))))
          else (case scan_spec 1 cs of
                  Inl e \<Rightarrow> Inl e
                | Inr (spec, rest) \<Rightarrow> Inr (field_name, None, spec, rest)))"

text \<open>
  \<open>get_integer\<close> (64-bit build) reads the first part from the left: a character that is
  not a decimal digit ends the scan with "not an integer"; before each digit is added,
  a value that would pass \<open>PY_SSIZE_T_MAX\<close> raises \<open>ValueError\<close>, whatever follows.
\<close>

definition PY_SSIZE_T_MAX :: nat where
  "PY_SSIZE_T_MAX = 2 ^ 63 - 1"

definition isdigit :: "char \<Rightarrow> bool" where
  "isdigit c \<longleftrightarrow> 48 \<le> (of_char c :: nat) \<and> (of_char c :: nat) \<le> 57"

datatype index = NotInteger | TooManyDigits | Index nat

fun get_integer :: "nat \<Rightarrow> string \<Rightarrow> index" where
  "get_integer accumulator [] = Index accumulator"
| "get_integer accumulator (c # cs) =
     (if \<not> isdigit c then NotInteger
      else if accumulator > (PY_SSIZE_T_MAX - (of_char c - 48)) div 10 then TooManyDigits
      else get_integer (accumulator * 10 + (of_char c - 48)) cs)"

text \<open>
  The part of the formatter that is Python's format mini-language is a parameter: what
  a \<open>sender_name\<close> field yields when it carries an attribute or index lookup, a
  conversion or a format spec, given these three and the value.
\<close>

type_synonym field_library = "string \<Rightarrow> char option \<Rightarrow> string \<Rightarrow> string \<Rightarrow> fmt_error + string"

text \<open>
  Rendering one field when the only argument is the keyword \<open>sender_name\<close>: the first
  part of the field name (up to \<open>.\<close> or \<open>[\<close>) selects the argument. An empty or
  numeric first part indexes the empty tuple of positional arguments; any other name
  than \<open>sender_name\<close> is a missing key.
\<close>

definition render_field ::
  "field_library \<Rightarrow> string \<Rightarrow> string \<Rightarrow> char option \<Rightarrow> string \<Rightarrow> fmt_error + string" where
  "render_field lib sender_name field_name conversion spec =
     (let first = takeWhile (\<lambda>c. c \<noteq> CHR ''.'' \<and> c \<noteq> CHR ''['') field_name;
          rest = dropWhile (\<lambda>c. c \<noteq> CHR ''.'' \<and> c \<noteq> CHR ''['') field_name
      in if first = [] then Inl IndexError
         else (case get_integer 0 first of
                 TooManyDigits \<Rightarrow> Inl ValueError
               | Index n \<Rightarrow> Inl IndexError
               | NotInteger \<Rightarrow>
                   if first \<noteq> ''sender_name'' then Inl (KeyError first)
                   else if rest = [] \<and> conversion = None \<and> spec = [] then Inr sender_name
                   else lib rest conversion spec sender_name))"

text \<open>Put text in front of the formatted remainder.\<close>

definition emit :: "string \<Rightarrow> fmt_error + string \<Rightarrow> fmt_error + string" where
  "emit out r = (case r of Inl e \<Rightarrow> Inl e | Inr s \<Rightarrow> Inr (out @ s))"

text \<open>
  \<open>body.format(sender_name=sender_name)\<close>: a brace followed by the same brace is one
  literal brace; a lone \<open>}\<close>, or a \<open>{\<close> at the end, is a \<open>ValueError\<close>; any other
  \<open>{\<close> opens a field.
\<close>

function py_format :: "field_library \<Rightarrow> string \<Rightarrow> string \<Rightarrow> fmt_error + string" where
  "py_format lib sender_name [] = Inr []"
| "py_format lib sender_name (c # cs) =
     (if c = CHR ''{'' \<or> c = CHR ''}'' then
        (case cs of
           [] \<Rightarrow> Inl ValueError
         | d # ds \<Rightarrow>
             if d = c then emit [c] (py_format lib sender_name ds)
             else if c = CHR ''}'' then Inl ValueError
             else (case parse_field (d # ds) of
                     Inl e \<Rightarrow> Inl e
                   | Inr (field_name, conversion, spec, rest) \<Rightarrow>
                       (case render_field lib sender_name field_name conversion spec of
                          Inl e \<Rightarrow> Inl e
                        | Inr out \<Rightarrow> emit out (py_format lib sender_name rest))))
      else emit [c] (py_format lib sender_name cs))"
  by pat_completeness auto
termination
proof (relation "measure (\<lambda>(lib, sender_name, s). length s)")
  have name_len: "scan_field_name b s = Inr (n, t, r) \<Longrightarrow> length r < length s"
    for b s n t r
  proof (induction b s arbitrary: n rule: scan_field_name.induct)
    case (1 in_bracket)
    then show ?case by simp
  next
    case (2 c cs)
    then show ?case
      by (auto simp: consl_def split: sum.splits prod.splits)
  next
    case (3 c cs)
    then show ?case
      by (auto simp: consl_def split: sum.splits prod.splits if_splits)
  qed
  have spec_len: "scan_spec k s = Inr (sp, r) \<Longrightarrow> length r < length s" for k s sp r
  proof (induction k s arbitrary: sp rule: scan_spec.induct)
    case (1 count)
    then show ?case by simp
  next
    case (2 count c cs)
    then show ?case
      by (auto simp: consl_def split: sum.splits prod.splits if_splits)
  qed
  have field_len: "parse_field s = Inr (n, cv, sp, r) \<Longrightarrow> length r < length s"
    for s n cv sp r
    unfolding parse_field_def
    by (auto split: sum.splits prod.splits if_splits list.splits
          dest!: name_len spec_len)
  show "wf (measure (\<lambda>(lib, sender_name, s). length s))"
    by simp
  show "\<And>lib sender_name c cs x21 x22.
       c = CHR ''{'' \<or> c = CHR ''}'' \<Longrightarrow> cs = x21 # x22 \<Longrightarrow> x21 = c \<Longrightarrow>
       ((lib, sender_name, x22), lib, sender_name, c # cs)
         \<in> measure (\<lambda>(lib, sender_name, s). length s)"
    by simp
  show "\<And>lib sender_name c cs x21 x22 x2 x1a x2a x1b x2b x1c x2c x2d.
       c = CHR ''{'' \<or> c = CHR ''}'' \<Longrightarrow> cs = x21 # x22 \<Longrightarrow> x21 \<noteq> c \<Longrightarrow>
       c \<noteq> CHR ''}'' \<Longrightarrow> parse_field (x21 # x22) = Inr x2 \<Longrightarrow> (x1a, x2a) = x2 \<Longrightarrow>
       (x1b, x2b) = x2a \<Longrightarrow> (x1c, x2c) = x2b \<Longrightarrow>
       render_field lib sender_name x1a x1b x1c = Inr x2d \<Longrightarrow>
       ((lib, sender_name, x2c), lib, sender_name, c # cs)
         \<in> measure (\<lambda>(lib, sender_name, s). length s)"
    using field_len by fastforce
  show "\<And>lib sender_name c cs.
       \<not> (c = CHR ''{'' \<or> c = CHR ''}'') \<Longrightarrow>
       ((lib, sender_name, cs), lib, sender_name, c # cs)
         \<in> measure (\<lambda>(lib, sender_name, s). length s)"
    by simp
qed

section \<open>Messages, transport events and reports\<close>

text \<open>
  A MIME part made by \<open>MIMEBase('application', 'octet-stream')\<close>, \<open>set_payload\<close>,
  \<open>encode_base64\<close> and the \<open>Content-Disposition\<close> header; \<open>payload\<close> holds the bytes read
  from the file, which the part carries in the named transfer encoding.
\<close>

record attachment =
  content_type :: string
  transfer_encoding :: string
  payload :: bytes
  disposition :: string

record message =
  hdr_from :: "string option"
  hdr_to :: string
  hdr_subject :: string
  body_text :: string
  attachments :: "attachment list"

text \<open>
  The operations a run performs on the outside world, in the order it attempts them:
  opening the recipient file, opening the file to attach, and the calls on the SMTP
  connection (\<open>smtplib.SMTP\<close>, \<open>starttls\<close>, \<open>login\<close>, \<open>sendmail\<close>, \<open>quit\<close>).
\<close>

datatype event =
    ListOpen string
  | FileOpen string
  | Connect string int
  | StartTLS
  | Login "string option" "string option"
  | Sendmail "string option" string message
  | Quit

fun is_transport :: "event \<Rightarrow> bool" where
  "is_transport (ListOpen p) = False"
| "is_transport (FileOpen p) = False"
| "is_transport e = True"

fun is_FileOpen :: "event \<Rightarrow> bool" where
  "is_FileOpen (FileOpen p) = True"
| "is_FileOpen e = False"

fun is_ListOpen :: "event \<Rightarrow> bool" where
  "is_ListOpen (ListOpen p) = True"
| "is_ListOpen e = False"

fun is_Sendmail :: "event \<Rightarrow> bool" where
  "is_Sendmail (Sendmail s r m) = True"
| "is_Sendmail e = False"

text \<open>The dictionary \<open>results\<close> of \<open>send_file\<close>; a failure is the pair of \<open>email\<close> and \<open>error\<close>.\<close>

record report =
  successful :: "string list"
  failed :: "(string \<times> string) list"
  total :: nat

section \<open>\<open>FileDeliveryService\<close> (\<open>file_delivery_script.py\<close>)\<close>

record service =
  smtp_server :: string
  smtp_port :: int
  sender_email :: "string option"
  sender_password :: "string option"

definition FileDeliveryService :: "string \<Rightarrow> int \<Rightarrow> service" where
  "FileDeliveryService server port =
     \<lparr>smtp_server = server, smtp_port = port, sender_email = None, sender_password = None\<rparr>"

definition configure_email :: "service \<Rightarrow> string \<Rightarrow> string \<Rightarrow> service" where
  "configure_email self email password =
     self\<lparr>sender_email := Some email, sender_password := Some password\<rparr>"

text \<open>
  \<open>validate_file\<close>: the two path tests and the trial \<open>open(file_path, 'rb')\<close>, whose result
  is \<open>None\<close> when it succeeds. Returns the value (or the exception that escapes) and the
  events.
\<close>

record file_env =
  path_exists :: bool
  path_isfile :: bool
  open_result :: "exn option"

definition validate_file :: "file_env \<Rightarrow> string \<Rightarrow> (exn + bool) \<times> event list" where
  "validate_file fs file_path =
     (if \<not> path_exists fs then (Inr False, [])
      else if \<not> path_isfile fs then (Inr False, [])
      else (case open_result fs of
              None \<Rightarrow> (Inr True, [FileOpen file_path])
            | Some (Exception cls msg) \<Rightarrow> (Inr False, [FileOpen file_path])
            | Some KeyboardInterrupt \<Rightarrow> (Inl KeyboardInterrupt, [FileOpen file_path])))"

text \<open>\<open>os.path.basename\<close>: the text after the last \<open>/\<close>.\<close>

definition basename :: "string \<Rightarrow> string" where
  "basename p = rev (takeWhile (\<lambda>c. c \<noteq> CHR ''/'') (rev p))"

definition default_body :: "string \<Rightarrow> string" where
  "default_body filename =
     ''\<newline>Hello,\<newline>\<newline>Please find the attached file: '' @ filename
     @ ''\<newline>\<newline>This file was sent automatically by the File Delivery Service.''
     @ ''\<newline>\<newline>Best regards,\<newline>File Delivery System\<newline>        ''"

text \<open>
  \<open>FileDeliveryService.create_email_message\<close>. The last argument is what
  \<open>open(file_path, 'rb')\<close> and \<open>attachment.read()\<close> yield at this call: the bytes, or the
  exception, which is logged and raised again.
\<close>

definition create_email_message ::
  "service \<Rightarrow> string \<Rightarrow> string \<Rightarrow> string option \<Rightarrow> string option \<Rightarrow> exn + bytes
     \<Rightarrow> exn + message" where
  "create_email_message self recipient file_path subject body contents =
     (let filename = basename file_path;
          msg = \<lparr>hdr_from = sender_email self, hdr_to = recipient,
                 hdr_subject = py_or subject (''File Delivery: '' @ filename),
                 body_text = py_or body (default_body filename),
                 attachments = []\<rparr>
      in case contents of
           Inl e \<Rightarrow> Inl e
         | Inr data \<Rightarrow>
             Inr (msg\<lparr>attachments :=
                        [\<lparr>content_type = ''application/octet-stream'',
                          transfer_encoding = ''base64'', payload = data,
                          disposition = ''attachment; filename= '' @ filename\<rparr>]\<rparr>))"

text \<open>
  What the outside world answers during \<open>send_file\<close>: the result of each call on the
  connection (\<open>None\<close> for success), and, for the recipient at position \<open>i\<close> of the
  delivery list, what reading the file yields, whether \<open>msg.as_string()\<close> raises on
  the message (it does on a header with an embedded line break), and what \<open>sendmail\<close>
  does.
\<close>

record delivery_env =
  connect_result :: "exn option"
  starttls_result :: "exn option"
  login_result :: "exn option"
  read_result :: "nat \<Rightarrow> exn + bytes"
  as_string_result :: "nat \<Rightarrow> exn option"
  sendmail_result :: "nat \<Rightarrow> exn option"
  quit_result :: "exn option"

text \<open>
  The body of the inner \<open>try\<close> for the recipient at position \<open>i\<close>: compose the
  message, serialise it, send it. Returns the exception raised, if any, and the events.
\<close>

definition send_one ::
  "service \<Rightarrow> delivery_env \<Rightarrow> string \<Rightarrow> string option \<Rightarrow> string option \<Rightarrow> nat
     \<Rightarrow> string \<Rightarrow> exn option \<times> event list" where
  "send_one self env file_path subject body i recipient =
     (case create_email_message self recipient file_path subject body (read_result env i) of
        Inl e \<Rightarrow> (Some e, [FileOpen file_path])
      | Inr msg \<Rightarrow>
          (case as_string_result env i of
             Some e \<Rightarrow> (Some e, [FileOpen file_path])
           | None \<Rightarrow>
               (sendmail_result env i,
                [FileOpen file_path, Sendmail (sender_email self) recipient msg])))"

text \<open>
  The \<open>for recipient in delivery_list\<close> loop with its inner \<open>try\<close>: \<open>except Exception\<close>
  records the failure and goes on; any other exception leaves the loop.
\<close>

fun send_loop ::
  "service \<Rightarrow> delivery_env \<Rightarrow> string \<Rightarrow> string option \<Rightarrow> string option \<Rightarrow> nat
     \<Rightarrow> string list \<Rightarrow> report \<Rightarrow> event list \<Rightarrow> (exn + report) \<times> event list" where
  "send_loop self env file_path subject body i [] results tr = (Inr results, tr)"
| "send_loop self env file_path subject body i (recipient # rest) results tr =
     (case send_one self env file_path subject body i recipient of
        (None, ev) \<Rightarrow>
          send_loop self env file_path subject body (i + 1) rest
            (results\<lparr>successful := successful results @ [recipient]\<rparr>) (tr @ ev)
      | (Some (Exception cls msg), ev) \<Rightarrow>
          send_loop self env file_path subject body (i + 1) rest
            (results\<lparr>failed := failed results @ [(recipient, msg)]\<rparr>) (tr @ ev)
      | (Some KeyboardInterrupt, ev) \<Rightarrow> (Inl KeyboardInterrupt, tr @ ev))"

text \<open>
  \<open>FileDeliveryService.send_file\<close>. The outer \<open>try\<close> logs and raises again, so an
  exception of the connection, or one that leaves the loop, is the result.
\<close>

definition send_file ::
  "service \<Rightarrow> delivery_env \<Rightarrow> string \<Rightarrow> string list \<Rightarrow> string option \<Rightarrow> string option
     \<Rightarrow> (exn + report) \<times> event list" where
  "send_file self env file_path delivery_list subject body =
     (let results = \<lparr>successful = [], failed = [], total = length delivery_list\<rparr> in
      if \<not> truthy (sender_email self) \<or> \<not> truthy (sender_password self) then
        (Inl (Exception ''ValueError''
                ''Email credentials not configured. Use configure_email() method.''), [])
      else
        (case connect_result env of
           Some e \<Rightarrow> (Inl e, [Connect (smtp_server self) (smtp_port self)])
         | None \<Rightarrow>
             (case starttls_result env of
                Some e \<Rightarrow> (Inl e, [Connect (smtp_server self) (smtp_port self), StartTLS])
              | None \<Rightarrow>
                  (case login_result env of
                     Some e \<Rightarrow>
                       (Inl e, [Connect (smtp_server self) (smtp_port self), StartTLS,
                                Login (sender_email self) (sender_password self)])
                   | None \<Rightarrow>
                       (case send_loop self env file_path subject body 0 delivery_list results
                               [Connect (smtp_server self) (smtp_port self), StartTLS,
                                Login (sender_email self) (sender_password self)] of
                          (Inl e, tr) \<Rightarrow> (Inl e, tr)
                        | (Inr results', tr) \<Rightarrow>
                            (case quit_result env of
                               Some e \<Rightarrow> (Inl e, tr @ [Quit])
                             | None \<Rightarrow> (Inr results', tr @ [Quit])))))))"

section \<open>The command of \<open>file_delivery_script.py\<close>\<close>

text \<open>
  \<open>load_config\<close>. The argument is \<open>None\<close> when the configuration file does not exist;
  otherwise what \<open>config.read\<close> yields: an exception, or the options of section
  \<open>email\<close> (absent ones are \<open>None\<close>; \<open>getint\<close> may raise on \<open>smtp_port\<close>).
\<close>

record ini =
  ini_smtp_server :: "string option"
  ini_smtp_port :: "(exn + int) option"
  ini_sender_email :: "string option"
  ini_sender_password :: "string option"

record config =
  c_smtp_server :: string
  c_smtp_port :: int
  c_sender_email :: string
  c_sender_password :: string

definition fallback :: "'a option \<Rightarrow> 'a \<Rightarrow> 'a" where
  "fallback v d = (case v of None \<Rightarrow> d | Some x \<Rightarrow> x)"

definition load_config :: "(exn + ini) option \<Rightarrow> exn + config" where
  "load_config config_file =
     (case config_file of
        None \<Rightarrow>
          Inr \<lparr>c_smtp_server = ''smtp.gmail.com'', c_smtp_port = 587,
               c_sender_email = [], c_sender_password = []\<rparr>
      | Some (Inl e) \<Rightarrow> Inl e
      | Some (Inr f) \<Rightarrow>
          (case fallback (ini_smtp_port f) (Inr 587) of
             Inl e \<Rightarrow> Inl e
           | Inr port \<Rightarrow>
               Inr \<lparr>c_smtp_server = fallback (ini_smtp_server f) ''smtp.gmail.com'',
                    c_smtp_port = port,
                    c_sender_email = fallback (ini_sender_email f) [],
                    c_sender_password = fallback (ini_sender_password f) []\<rparr>))"

text \<open>The parsed command line.\<close>

record args =
  arg_file :: string
  arg_delivery_list :: string
  arg_subject :: "string option"
  arg_body :: "string option"
  arg_config :: string
  arg_sender_email :: "string option"
  arg_sender_password :: "string option"

text \<open>
  The outside world of one run: the configuration file, what \<open>input\<close> and \<open>getpass\<close>
  return when asked, the file to send, the recipient file and the mail server.
\<close>

record main_env =
  config_file :: "(exn + ini) option"
  input_result :: "exn + string"
  getpass_result :: "exn + string"
  file_system :: file_env
  list_source :: source
  delivery :: delivery_env

text \<open>\<open>if not value: value = input(...)\<close>.\<close>

definition prompt :: "string \<Rightarrow> exn + string \<Rightarrow> exn + string" where
  "prompt v answer = (if v = [] then answer else Inr v)"

text \<open>The two handlers of \<open>main\<close>: both end in \<open>sys.exit(1)\<close>.\<close>

fun main_handler :: "exn \<Rightarrow> nat" where
  "main_handler KeyboardInterrupt = 1"
| "main_handler (Exception cls msg) = 1"

text \<open>
  \<open>main\<close>, after \<open>parse_args\<close>: the exit code, the events, and the results of
  \<open>send_file\<close> when it returned them.
\<close>

definition main :: "main_env \<Rightarrow> args \<Rightarrow> nat \<times> event list \<times> report option" where
  "main env a =
     (case load_config (config_file env) of
        Inl e \<Rightarrow> (main_handler e, [], None)
      | Inr config \<Rightarrow>
     (case prompt (py_or (arg_sender_email a) (c_sender_email config)) (input_result env) of
        Inl e \<Rightarrow> (main_handler e, [], None)
      | Inr email \<Rightarrow>
     (case prompt (py_or (arg_sender_password a) (c_sender_password config))
             (getpass_result env) of
        Inl e \<Rightarrow> (main_handler e, [], None)
      | Inr password \<Rightarrow>
     (let delivery_service =
            configure_email (FileDeliveryService (c_smtp_server config) (c_smtp_port config))
              email password
      in case validate_file (file_system env) (arg_file a) of
        (Inl e, tr) \<Rightarrow> (main_handler e, tr, None)
      | (Inr False, tr) \<Rightarrow> (1, tr, None)
      | (Inr True, tr) \<Rightarrow>
     (case load_delivery_list (list_source env) of
        Inl e \<Rightarrow> (main_handler e, tr @ [ListOpen (arg_delivery_list a)], None)
      | Inr delivery_list \<Rightarrow>
          if delivery_list = [] then (1, tr @ [ListOpen (arg_delivery_list a)], None)
          else
     (case send_file delivery_service (delivery env) (arg_file a) delivery_list
             (arg_subject a) (arg_body a) of
        (Inl e, tr') \<Rightarrow>
          (main_handler e, tr @ [ListOpen (arg_delivery_list a)] @ tr', None)
      | (Inr results, tr') \<Rightarrow>
          (if length (failed results) = 0 then 0 else 1,
           tr @ [ListOpen (arg_delivery_list a)] @ tr', Some results)))))))"



section \<open>\<open>email_sender.py\<close>\<close>

record email_config =
  ec_smtp_server :: string
  ec_smtp_port :: int
  ec_sender_email :: string
  ec_sender_password :: string
  ec_sender_name :: string

definition EMAIL_CONFIG :: email_config where
  "EMAIL_CONFIG =
     \<lparr>ec_smtp_server = ''smtp.gmail.com'', ec_smtp_port = 587,
      ec_sender_email = ''your_email@gmail.com'', ec_sender_password = ''your_app_password'',
      ec_sender_name = ''Your Name''\<rparr>"

definition FILES_FOLDER :: string where
  "FILES_FOLDER = ''./files_to_send''"

definition RECIPIENTS_FILE :: string where
  "RECIPIENTS_FILE = ''./recipients.txt''"

definition EMAIL_SUBJECT :: string where
  "EMAIL_SUBJECT = ''Files for Review''"

definition EMAIL_BODY :: string where
  "EMAIL_BODY =
     ''\<newline>Dear Recipient,\<newline>\<newline>I hope this email finds you well.\<newline>\<newline>''
     @ ''Please find the attached files for your review. These documents contain ''
     @ ''important information that requires your attention.\<newline>\<newline>''
     @ ''Key points:\<newline>- Please review all attached files carefully\<newline>''
     @ ''- Feel free to reach out if you have any questions\<newline>''
     @ ''- Your feedback is greatly appreciated\<newline>\<newline>''
     @ ''Thank you for your time and consideration.\<newline>\<newline>''
     @ ''Best regards,\<newline>{sender_name}\<newline>''"

text \<open>\<open>validate_config\<close>, on the configuration in force.\<close>

definition validate_config :: "email_config \<Rightarrow> bool" where
  "validate_config cfg =
     (if ec_smtp_server cfg = [] then False
      else if ec_smtp_port cfg = 0 then False
      else if ec_sender_email cfg = [] then False
      else if ec_sender_password cfg = [] then False
      else if ec_sender_email cfg = ''your_email@gmail.com'' then False
      else if ec_sender_password cfg = ''your_app_password'' then False
      else True)"

text \<open>
  \<open>get_files_to_send\<close>: whether the folder exists, and what \<open>iterdir\<close> yields, each entry
  with its \<open>is_file()\<close>.
\<close>

definition get_files_to_send ::
  "bool \<Rightarrow> exn + (string \<times> bool) list \<Rightarrow> string \<Rightarrow> exn + string list" where
  "get_files_to_send exists entries folder_path =
     (if \<not> exists then
        Inl (Exception ''FileNotFoundError'' (''Files folder not found: '' @ folder_path))
      else (case entries of
              Inl e \<Rightarrow> Inl e
            | Inr es \<Rightarrow> Inr (map fst (filter snd es))))"

text \<open>\<open>create_email_message\<close> of \<open>email_sender.py\<close>.\<close>

definition es_create_email_message ::
  "field_library \<Rightarrow> string \<Rightarrow> string \<Rightarrow> string \<Rightarrow> string \<Rightarrow> string \<Rightarrow> fmt_error + message" where
  "es_create_email_message lib sender recipient_email subject body sender_name =
     (case py_format lib sender_name body of
        Inl e \<Rightarrow> Inl e
      | Inr formatted_body \<Rightarrow>
          Inr \<lparr>hdr_from =
                 Some (if sender_name \<noteq> [] then sender_name @ '' <'' @ sender @ ''>''
                       else sender),
               hdr_to = recipient_email, hdr_subject = subject,
               body_text = formatted_body, attachments = []\<rparr>)"

text \<open>
  \<open>attach_file_to_email\<close>: \<open>except Exception\<close> turns a failed read into \<open>False\<close>. Returns
  the flag and the message, which the call extends in place.
\<close>

definition attach_file_to_email ::
  "message \<Rightarrow> string \<Rightarrow> exn + bytes \<Rightarrow> exn + (bool \<times> message)" where
  "attach_file_to_email msg file_path contents =
     (case contents of
        Inl (Exception cls m) \<Rightarrow> Inr (False, msg)
      | Inl KeyboardInterrupt \<Rightarrow> Inl KeyboardInterrupt
      | Inr data \<Rightarrow>
          Inr (True,
               msg\<lparr>attachments := attachments msg @
                      [\<lparr>content_type = ''application/octet-stream'',
                        transfer_encoding = ''base64'', payload = data,
                        disposition = ''attachment; filename= '' @ basename file_path\<rparr>]\<rparr>))"

text \<open>The inner loop of \<open>main\<close> over \<open>files_to_send\<close>, left at the first failure.\<close>

fun attach_files ::
  "message \<Rightarrow> (nat \<Rightarrow> exn + bytes) \<Rightarrow> nat \<Rightarrow> string list \<Rightarrow> event list
     \<Rightarrow> (exn + (bool \<times> message)) \<times> event list" where
  "attach_files msg rd j [] tr = (Inr (True, msg), tr)"
| "attach_files msg rd j (file_path # rest) tr =
     (case attach_file_to_email msg file_path (rd j) of
        Inl e \<Rightarrow> (Inl e, tr @ [FileOpen file_path])
      | Inr (False, msg') \<Rightarrow> (Inr (False, msg'), tr @ [FileOpen file_path])
      | Inr (True, msg') \<Rightarrow> attach_files msg' rd (j + 1) rest (tr @ [FileOpen file_path]))"

text \<open>
  What the mail server answers to each call of one \<open>send_email\<close>, and whether
  \<open>msg.as_string()\<close> raises.
\<close>

record session_env =
  on_connect :: "exn option"
  on_starttls :: "exn option"
  on_login :: "exn option"
  on_as_string :: "exn option"
  on_sendmail :: "exn option"
  on_quit :: "exn option"

text \<open>The handler \<open>except Exception\<close> of a function that then returns \<open>False\<close>.\<close>

fun returns_False :: "exn \<Rightarrow> exn + bool" where
  "returns_False (Exception cls msg) = Inr False"
| "returns_False KeyboardInterrupt = Inl KeyboardInterrupt"

text \<open>\<open>send_email\<close>: one connection per message.\<close>

definition send_email ::
  "string \<Rightarrow> int \<Rightarrow> string \<Rightarrow> string \<Rightarrow> session_env \<Rightarrow> message
     \<Rightarrow> (exn + bool) \<times> event list" where
  "send_email server port sender password s msg =
     (case on_connect s of
        Some e \<Rightarrow> (returns_False e, [Connect server port])
      | None \<Rightarrow>
     (case on_starttls s of
        Some e \<Rightarrow> (returns_False e, [Connect server port, StartTLS])
      | None \<Rightarrow>
     (case on_login s of
        Some e \<Rightarrow>
          (returns_False e, [Connect server port, StartTLS, Login (Some sender) (Some password)])
      | None \<Rightarrow>
     (case on_as_string s of
        Some e \<Rightarrow>
          (returns_False e, [Connect server port, StartTLS, Login (Some sender) (Some password)])
      | None \<Rightarrow>
     (case on_sendmail s of
        Some e \<Rightarrow>
          (returns_False e,
           [Connect server port, StartTLS, Login (Some sender) (Some password),
            Sendmail (Some sender) (hdr_to msg) msg])
      | None \<Rightarrow>
     (case on_quit s of
        Some e \<Rightarrow>
          (returns_False e,
           [Connect server port, StartTLS, Login (Some sender) (Some password),
            Sendmail (Some sender) (hdr_to msg) msg, Quit])
      | None \<Rightarrow>
          (Inr True,
           [Connect server port, StartTLS, Login (Some sender) (Some password),
            Sendmail (Some sender) (hdr_to msg) msg, Quit])))))))"

text \<open>
  The outside world of one run of \<open>email_sender.py\<close>; reads and sessions are indexed
  by the position of the recipient (and of the file).
\<close>

record sender_env =
  recipients_source :: source
  folder_exists :: bool
  folder_entries :: "exn + (string \<times> bool) list"
  attach_result :: "nat \<Rightarrow> nat \<Rightarrow> exn + bytes"
  session :: "nat \<Rightarrow> session_env"

text \<open>What can leave the recipient loop of \<open>main\<close>.\<close>

datatype raised = FormatError fmt_error | Raised exn

text \<open>The recipient loop of \<open>main\<close>, with its two counters.\<close>

fun deliver_loop ::
  "email_config \<Rightarrow> field_library \<Rightarrow> sender_env \<Rightarrow> string list \<Rightarrow> nat \<Rightarrow> string list
     \<Rightarrow> nat \<Rightarrow> nat \<Rightarrow> event list \<Rightarrow> (raised + nat \<times> nat) \<times> event list" where
  "deliver_loop cfg lib env files i [] successful_sends failed_sends tr =
     (Inr (successful_sends, failed_sends), tr)"
| "deliver_loop cfg lib env files i (recipient # rest) successful_sends failed_sends tr =
     (case es_create_email_message lib (ec_sender_email cfg) recipient EMAIL_SUBJECT
             EMAIL_BODY (ec_sender_name cfg) of
        Inl e \<Rightarrow> (Inl (FormatError e), tr)
      | Inr msg \<Rightarrow>
     (case attach_files msg (attach_result env i) 0 files tr of
        (Inl e, tr1) \<Rightarrow> (Inl (Raised e), tr1)
      | (Inr (False, msg'), tr1) \<Rightarrow>
          deliver_loop cfg lib env files (i + 1) rest successful_sends (failed_sends + 1) tr1
      | (Inr (True, msg'), tr1) \<Rightarrow>
     (case send_email (ec_smtp_server cfg) (ec_smtp_port cfg) (ec_sender_email cfg)
             (ec_sender_password cfg) (session env i) msg' of
        (Inl e, tr2) \<Rightarrow> (Inl (Raised e), tr1 @ tr2)
      | (Inr True, tr2) \<Rightarrow>
          deliver_loop cfg lib env files (i + 1) rest (successful_sends + 1) failed_sends
            (tr1 @ tr2)
      | (Inr False, tr2) \<Rightarrow>
          deliver_loop cfg lib env files (i + 1) rest successful_sends (failed_sends + 1)
            (tr1 @ tr2))))"

text \<open>
  \<open>main\<close> of \<open>email_sender.py\<close>: the value returned (or the exception that escapes
  \<open>except Exception\<close>), the events, and the two counters of the summary when the loop
  ended.
\<close>

definition es_main ::
  "email_config \<Rightarrow> field_library \<Rightarrow> sender_env
     \<Rightarrow> (exn + bool) \<times> event list \<times> (nat \<times> nat) option" where
  "es_main cfg lib env =
     (if \<not> validate_config cfg then (Inr False, [], None)
      else
     (case load_recipients (recipients_source env) of
        Inl e \<Rightarrow> (returns_False e, [ListOpen RECIPIENTS_FILE], None)
      | Inr recipients \<Rightarrow>
     (case get_files_to_send (folder_exists env) (folder_entries env) FILES_FOLDER of
        Inl e \<Rightarrow> (returns_False e, [ListOpen RECIPIENTS_FILE], None)
      | Inr files_to_send \<Rightarrow>
          if files_to_send = [] then (Inr False, [ListOpen RECIPIENTS_FILE], None)
          else
     (case deliver_loop cfg lib env files_to_send 0 recipients 0 0
             [ListOpen RECIPIENTS_FILE] of
        (Inl (FormatError e), tr) \<Rightarrow> (Inr False, tr, None)
      | (Inl (Raised e), tr) \<Rightarrow> (returns_False e, tr, None)
      | (Inr (successful_sends, failed_sends), tr) \<Rightarrow>
          (Inr (successful_sends > 0), tr, Some (successful_sends, failed_sends))))))"


section \<open>Vocabulary of the properties\<close>

subsection \<open>Runs of \<open>send_file\<close>\<close>

text \<open>Both credentials are set and not empty.\<close>

definition configured :: "service \<Rightarrow> bool" where
  "configured self \<longleftrightarrow> truthy (sender_email self) \<and> truthy (sender_password self)"

text \<open>The session was opened: connecting, \<open>starttls\<close> and \<open>login\<close> all succeeded.\<close>

definition opened :: "delivery_env \<Rightarrow> bool" where
  "opened env \<longleftrightarrow>
     connect_result env = None \<and> starttls_result env = None \<and> login_result env = None"

text \<open>The three events of opening the session.\<close>

definition handshake :: "service \<Rightarrow> event list" where
  "handshake self =
     [Connect (smtp_server self) (smtp_port self), StartTLS,
      Login (sender_email self) (sender_password self)]"

text \<open>
  What the inner \<open>try\<close> raises for the recipient at position \<open>i\<close>: the error of
  reading the file, else that of \<open>as_string\<close>, else that of \<open>sendmail\<close>; \<open>None\<close> when
  the message was accepted.
\<close>

definition outcome :: "delivery_env \<Rightarrow> nat \<Rightarrow> exn option" where
  "outcome env i =
     (case read_result env i of
        Inl e \<Rightarrow> Some e
      | Inr data \<Rightarrow>
          (case as_string_result env i of Some e \<Rightarrow> Some e | None \<Rightarrow> sendmail_result env i))"

text \<open>The iteration is left by an exception that is not an \<open>Exception\<close>.\<close>

definition recipient_interrupted :: "delivery_env \<Rightarrow> nat \<Rightarrow> bool" where
  "recipient_interrupted env i =
     (case outcome env i of None \<Rightarrow> False | Some e \<Rightarrow> \<not> is_Exception e)"

text \<open>None of the \<open>n\<close> iterations from position \<open>i\<close> on is interrupted.\<close>

definition no_interrupt :: "delivery_env \<Rightarrow> nat \<Rightarrow> nat \<Rightarrow> bool" where
  "no_interrupt env i n = list_all (\<lambda>k. \<not> recipient_interrupted env k) [i..<i + n]"

text \<open>
  The message for position \<open>i\<close> could be composed and serialised, so that \<open>sendmail\<close>
  is called with it; it was also accepted.
\<close>

definition composed :: "delivery_env \<Rightarrow> nat \<Rightarrow> bool" where
  "composed env i =
     (case read_result env i of Inl e \<Rightarrow> False | Inr data \<Rightarrow> as_string_result env i = None)"

definition delivered :: "delivery_env \<Rightarrow> nat \<Rightarrow> bool" where
  "delivered env i \<longleftrightarrow> outcome env i = None"

text \<open>The text of the error that made position \<open>i\<close> fail.\<close>

definition failure_reason :: "delivery_env \<Rightarrow> nat \<Rightarrow> string" where
  "failure_reason env i = (case outcome env i of None \<Rightarrow> [] | Some e \<Rightarrow> str_exn e)"

text \<open>The bytes read for position \<open>i\<close>.\<close>

definition file_bytes :: "delivery_env \<Rightarrow> nat \<Rightarrow> bytes" where
  "file_bytes env i = (case read_result env i of Inl e \<Rightarrow> [] | Inr data \<Rightarrow> data)"

text \<open>The recipients, and the messages, of the \<open>sendmail\<close> calls of a trace, in order.\<close>

fun sendmail_recipients :: "event list \<Rightarrow> string list" where
  "sendmail_recipients [] = []"
| "sendmail_recipients (Sendmail s r m # es) = r # sendmail_recipients es"
| "sendmail_recipients (e # es) = sendmail_recipients es"

fun sent_messages :: "event list \<Rightarrow> message list" where
  "sent_messages [] = []"
| "sent_messages (Sendmail s r m # es) = m # sent_messages es"
| "sent_messages (e # es) = sent_messages es"

definition payloads :: "message \<Rightarrow> bytes list" where
  "payloads m = map payload (attachments m)"

subsection \<open>Body templates\<close>

text \<open>
  A template made of literal text without braces and of the token \<open>{sender_name}\<close>; its
  text, and the text with the token replaced.
\<close>

definition brace_free :: "string \<Rightarrow> bool" where
  "brace_free s \<longleftrightarrow> list_all (\<lambda>c. c \<noteq> CHR ''{'' \<and> c \<noteq> CHR ''}'') s"

datatype segment = Text string | SenderName

fun template :: "segment list \<Rightarrow> string" where
  "template [] = []"
| "template (Text t # segs) = t @ template segs"
| "template (SenderName # segs) = ''{sender_name}'' @ template segs"

fun filled :: "string \<Rightarrow> segment list \<Rightarrow> string" where
  "filled name [] = []"
| "filled name (Text t # segs) = t @ filled name segs"
| "filled name (SenderName # segs) = name @ filled name segs"

fun literal_text :: "segment list \<Rightarrow> bool" where
  "literal_text [] = True"
| "literal_text (Text t # segs) = (brace_free t \<and> literal_text segs)"
| "literal_text (SenderName # segs) = literal_text segs"

text \<open>
  A token \<open>{f}\<close> for another name: \<open>f\<close> is not empty, is not \<open>sender_name\<close>, has
  none of the characters that structure a field, and is not read as a number by
  \<open>get_integer\<close> (a character that is not a digit comes before its digits overflow).
\<close>

definition name_char :: "char \<Rightarrow> bool" where
  "name_char c \<longleftrightarrow>
     c \<noteq> CHR ''{'' \<and> c \<noteq> CHR ''}'' \<and> c \<noteq> CHR ''['' \<and> c \<noteq> CHR ''.'' \<and> c \<noteq> CHR ''!''
     \<and> c \<noteq> CHR '':''"

definition other_name :: "string \<Rightarrow> bool" where
  "other_name f \<longleftrightarrow>
     f \<noteq> [] \<and> f \<noteq> ''sender_name'' \<and> list_all name_char f
     \<and> get_integer 0 f = NotInteger"

subsection \<open>Example runs\<close>

text \<open>A file that reads the same at every iteration, and one that changes between reads.\<close>

definition reads :: "bytes \<Rightarrow> nat \<Rightarrow> exn + bytes" where
  "reads data i = Inr data"

definition reads_changing :: "nat \<Rightarrow> exn + bytes" where
  "reads_changing i = Inr [of_nat i]"

text \<open>
  An operation (\<open>as_string\<close>, \<open>sendmail\<close>) that raises \<open>e\<close> for position \<open>k\<close> and
  succeeds for the others, and one that succeeds at every position.
\<close>

definition raises_at :: "nat \<Rightarrow> exn \<Rightarrow> nat \<Rightarrow> exn option" where
  "raises_at k e i = (if i = k then Some e else None)"

definition accepts_all :: "nat \<Rightarrow> exn option" where
  "accepts_all i = None"

definition example_service :: service where
  "example_service =
     configure_email (FileDeliveryService ''smtp.gmail.com'' 587) ''me@x.com'' ''secret''"

text \<open>
  Environments: the second recipient is rejected; the same, and \<open>quit\<close> raises; the
  message for the second recipient cannot be serialised; the user interrupts the first
  \<open>sendmail\<close>; every message is accepted while the file changes.
\<close>

definition rejecting_second :: delivery_env where
  "rejecting_second =
     \<lparr>connect_result = None, starttls_result = None, login_result = None,
      read_result = reads [1, 2, 3], as_string_result = accepts_all,
      sendmail_result = raises_at 1 (Exception ''SMTPRecipientsRefused'' ''rejected''),
      quit_result = None\<rparr>"


definition unserialisable_second :: delivery_env where
  "unserialisable_second =
     \<lparr>connect_result = None, starttls_result = None, login_result = None,
      read_result = reads_changing,
      as_string_result = raises_at 1 (Exception ''HeaderParseError'' ''embedded header''),
      sendmail_result = accepts_all, quit_result = None\<rparr>"

definition interrupted_first :: delivery_env where
  "interrupted_first =
     \<lparr>connect_result = None, starttls_result = None, login_result = None,
      read_result = reads [1, 2, 3], as_string_result = accepts_all,
      sendmail_result = raises_at 0 KeyboardInterrupt,
      quit_result = None\<rparr>"

definition changing_file :: delivery_env where
  "changing_file =
     \<lparr>connect_result = None, starttls_result = None, login_result = None,
      read_result = reads_changing, as_string_result = accepts_all,
      sendmail_result = accepts_all,
      quit_result = None\<rparr>"

text \<open>A command line, and three worlds for it: the file to send is missing; the
  second of three recipients is rejected; the recipient file holds no address.\<close>

definition example_args :: args where
  "example_args =
     \<lparr>arg_file = ''report.pdf'', arg_delivery_list = ''emails.txt'',
      arg_subject = Some ''Report'', arg_body = Some ''See attachment.'',
      arg_config = ''config.ini'', arg_sender_email = Some ''me@x.com'',
      arg_sender_password = Some ''secret''\<rparr>"

definition missing_file :: main_env where
  "missing_file =
     \<lparr>config_file = None, input_result = Inr [], getpass_result = Inr [],
      file_system = \<lparr>path_exists = False, path_isfile = False, open_result = None\<rparr>,
      list_source = Inr [''a@x.com\<newline>''],
      delivery = rejecting_second\<rparr>"


definition no_addresses :: main_env where
  "no_addresses =
     \<lparr>config_file = None, input_result = Inr [], getpass_result = Inr [],
      file_system = \<lparr>path_exists = True, path_isfile = True, open_result = None\<rparr>,
      list_source = Inr [''# nobody\<newline>'', ''badline\<newline>''],
      delivery = rejecting_second\<rparr>"

text \<open>
  For \<open>email_sender.py\<close>: a configuration that passes \<open>validate_config\<close>, a library that
  refuses every field it is asked about, one file that reads well, and a server that
  refuses the message for position \<open>k\<close>.
\<close>

definition example_config :: email_config where
  "example_config =
     \<lparr>ec_smtp_server = ''smtp.x.com'', ec_smtp_port = 587, ec_sender_email = ''me@x.com'',
      ec_sender_password = ''secret'', ec_sender_name = ''Ann''\<rparr>"

definition no_library :: field_library where
  "no_library rest conversion spec v = Inl ValueError"

definition attach_ok :: "nat \<Rightarrow> nat \<Rightarrow> exn + bytes" where
  "attach_ok i j = Inr [1, 2, 3]"

definition session_refusing :: "nat \<Rightarrow> nat \<Rightarrow> session_env" where
  "session_refusing k i =
     \<lparr>on_connect = None, on_starttls = None, on_login = None, on_as_string = None,
      on_sendmail =
        (if i = k then Some (Exception ''SMTPRecipientsRefused'' ''rejected'') else None),
      on_quit = None\<rparr>"


definition no_recipients :: sender_env where
  "no_recipients =
     \<lparr>recipients_source = Inr [''# nobody\<newline>'', ''badline\<newline>''],
      folder_exists = True,
      folder_entries = Inr [(''files_to_send/report.pdf'', True)],
      attach_result = attach_ok,
      session = session_refusing 1\<rparr>"

definition comment_only :: sender_env where
  "comment_only =
     \<lparr>recipients_source = Inr [''# a@x.com\<newline>''],
      folder_exists = True,
      folder_entries = Inr [(''files_to_send/report.pdf'', True)],
      attach_result = attach_ok,
      session = session_refusing 1\<rparr>"

subsection \<open>Runs of \<open>email_sender.py\<close>\<close>




section \<open>The address list\<close>

lemma mem_strip_iff: "\<not> isspace c \<Longrightarrow> c \<in> set (strip s) \<longleftrightarrow> c \<in> set s"
proof -
  assume ns: "\<not> isspace c"
  have a: "c \<in> set (dropWhile isspace xs) \<longleftrightarrow> c \<in> set xs" for xs
    using ns by (induction xs) auto
  show ?thesis unfolding strip_def by (simp add: a)
qed

lemma at_in_strip: "CHR ''@'' \<in> set (strip s) \<longleftrightarrow> CHR ''@'' \<in> set s"
  by (rule mem_strip_iff) (simp add: isspace_def)

lemma fst_load_loop:
  "fst (load_loop n lines emails warnings) = emails @ filter accepted (map strip lines)"
  by (induction lines arbitrary: n emails warnings) (simp_all add: Let_def accepted_def)

lemma load_recipients_filter:
  "map strip (filter (\<lambda>line. strip line \<noteq> [] \<and> CHR ''@'' \<in> set line) lines)
     = filter (\<lambda>e. e \<noteq> [] \<and> CHR ''@'' \<in> set e) (map strip lines)"
  by (induction lines) (simp_all add: at_in_strip)

text \<open>
  Claim C1, as the code has it. \<open>load_delivery_list\<close> returns, in source order and with
  repetitions kept, the stripped text of every line that is not blank, is not a comment
  and contains an \<open>@\<close>; its length is the number of such lines, not the number of distinct
  addresses. Collapsing the repetitions of the result gives the list the specification
  describes. \<open>load_recipients\<close> keeps every non-blank line with an \<open>@\<close> (comment lines
  too), repetitions included, and raises \<open>ValueError\<close> when none is left.
\<close>

theorem load_keeps_every_accepted_line:
  "load_delivery_list (Inr lines) = Inr (filter accepted (map strip lines))
   \<and> length (filter accepted (map strip lines)) = length (filter (\<lambda>l. accepted (strip l)) lines)
   \<and> dedup_first [] (filter accepted (map strip lines)) = spec_load lines
   \<and> load_recipients (Inr lines) =
       (let rs = filter (\<lambda>e. e \<noteq> [] \<and> CHR ''@'' \<in> set e) (map strip lines)
        in if rs = [] then Inl (Exception ''ValueError''
                                  ''No valid email addresses found in recipients file'')
           else Inr rs)"
proof -
  have 1: "load_delivery_list (Inr lines) = Inr (filter accepted (map strip lines))"
    by (simp add: load_delivery_list_def fst_load_loop)
  have 2: "length (filter accepted (map strip lines))
             = length (filter (\<lambda>l. accepted (strip l)) lines)"
    by (simp add: filter_map comp_def)
  have 3: "dedup_first [] (filter accepted (map strip lines)) = spec_load lines"
    by (simp add: spec_load_def)
  have 4: "load_recipients (Inr lines) =
       (let rs = filter (\<lambda>e. e \<noteq> [] \<and> CHR ''@'' \<in> set e) (map strip lines)
        in if rs = [] then Inl (Exception ''ValueError''
                                  ''No valid email addresses found in recipients file'')
           else Inr rs)"
    unfolding load_recipients_def load_recipients_filter by (simp add: Let_def)
  from 1 2 3 4 show ?thesis by blast
qed

text \<open>The theorem at the recipient source of Scenario A.\<close>

theorem load_keeps_every_accepted_line_witness:
  "load_delivery_list
     (Inr [''a@x.com\<newline>'', ''# comment\<newline>'', ''\<newline>'', ''b@x.com\<newline>'',
           ''badline\<newline>'', ''a@x.com\<newline>''])
     = Inr [''a@x.com'', ''b@x.com'', ''a@x.com'']"
proof -
  have "filter accepted
          (map strip [''a@x.com\<newline>'', ''# comment\<newline>'', ''\<newline>'', ''b@x.com\<newline>'',
                      ''badline\<newline>'', ''a@x.com\<newline>''])
          = [''a@x.com'', ''b@x.com'', ''a@x.com'']"
    by code_simp
  with load_keeps_every_accepted_line
         [of "[''a@x.com\<newline>'', ''# comment\<newline>'', ''\<newline>'', ''b@x.com\<newline>'',
               ''badline\<newline>'', ''a@x.com\<newline>'']"]
  show ?thesis by simp
qed

text \<open>
  Claim C1 as stated fails at Scenario A: both loaders return the repeated address
  twice, three addresses where the distinct ones are two.
\<close>

theorem load_keeps_duplicates_counterexample:
  "load_delivery_list
     (Inr [''a@x.com\<newline>'', ''# comment\<newline>'', ''\<newline>'', ''b@x.com\<newline>'',
           ''badline\<newline>'', ''a@x.com\<newline>''])
     = Inr [''a@x.com'', ''b@x.com'', ''a@x.com'']
   \<and> load_recipients
     (Inr [''a@x.com\<newline>'', ''# comment\<newline>'', ''\<newline>'', ''b@x.com\<newline>'',
           ''badline\<newline>'', ''a@x.com\<newline>''])
     = Inr [''a@x.com'', ''b@x.com'', ''a@x.com'']
   \<and> spec_load
     [''a@x.com\<newline>'', ''# comment\<newline>'', ''\<newline>'', ''b@x.com\<newline>'',
      ''badline\<newline>'', ''a@x.com\<newline>'']
     = [''a@x.com'', ''b@x.com'']
   \<and> \<not> distinct [''a@x.com'', ''b@x.com'', ''a@x.com'']"
  by code_simp

section \<open>The recipient loop of \<open>send_file\<close>\<close>

lemma no_interrupt_Suc:
  "no_interrupt env i (Suc n) \<longleftrightarrow> \<not> recipient_interrupted env i \<and> no_interrupt env (Suc i) n"
proof -
  have "[i..<i + Suc n] = i # [Suc i..<Suc i + n]"
    by (simp add: upt_conv_Cons del: upt_Suc)
  then show ?thesis by (simp add: no_interrupt_def)
qed

lemma sendmail_recipients_append [simp]:
  "sendmail_recipients (xs @ ys) = sendmail_recipients xs @ sendmail_recipients ys"
  by (induction xs rule: sendmail_recipients.induct) simp_all

lemma sent_messages_append [simp]:
  "sent_messages (xs @ ys) = sent_messages xs @ sent_messages ys"
  by (induction xs rule: sent_messages.induct) simp_all

text \<open>One iteration: what it raises, and what it leaves in the trace.\<close>

lemma fst_send_one: "fst (send_one self env fp s b i r) = outcome env i"
  by (cases "read_result env i")
     (auto simp: send_one_def outcome_def create_email_message_def Let_def
           split: option.splits)

lemma send_one_events:
  "length (filter is_FileOpen (snd (send_one self env fp s b i r))) = 1
   \<and> Quit \<notin> set (snd (send_one self env fp s b i r))
   \<and> sendmail_recipients (snd (send_one self env fp s b i r))
       = (if composed env i then [r] else [])
   \<and> map payloads (sent_messages (snd (send_one self env fp s b i r)))
       = (if composed env i then [[file_bytes env i]] else [])"
  by (cases "read_result env i")
     (auto simp: send_one_def composed_def file_bytes_def create_email_message_def Let_def
                 payloads_def
           split: option.splits)

lemma send_loop_Cons:
  "send_loop self env fp s b i (r # rs) res tr =
     (case outcome env i of
        None \<Rightarrow>
          send_loop self env fp s b (Suc i) rs (res\<lparr>successful := successful res @ [r]\<rparr>)
            (tr @ snd (send_one self env fp s b i r))
      | Some (Exception cls msg) \<Rightarrow>
          send_loop self env fp s b (Suc i) rs (res\<lparr>failed := failed res @ [(r, msg)]\<rparr>)
            (tr @ snd (send_one self env fp s b i r))
      | Some KeyboardInterrupt \<Rightarrow>
          (Inl KeyboardInterrupt, tr @ snd (send_one self env fp s b i r)))"
proof -
  obtain out ev where so: "send_one self env fp s b i r = (out, ev)"
    by (cases "send_one self env fp s b i r")
  with fst_send_one[of self env fp s b i r] have "outcome env i = out" by simp
  with so show ?thesis by (simp split: option.splits exn.splits)
qed

declare send_loop.simps(2) [simp del]

text \<open>Whatever the outcomes, a report that the loop returns counts every recipient once.\<close>

lemma send_loop_counts:
  "send_loop self env fp s b i rs res tr = (Inr res', tr') \<Longrightarrow>
   length (successful res') + length (failed res')
     = length (successful res) + length (failed res) + length rs
   \<and> total res' = total res
   \<and> length (filter is_FileOpen tr') = length (filter is_FileOpen tr) + length rs"
proof (induction rs arbitrary: i res tr)
  case Nil
  then show ?case by simp
next
  case (Cons r rs)
  let ?ev = "snd (send_one self env fp s b i r)"
  have ev: "length (filter is_FileOpen ?ev) = 1" using send_one_events by blast
  show ?case
  proof (cases "outcome env i")
    case None
    with Cons.prems
    have "send_loop self env fp s b (Suc i) rs (res\<lparr>successful := successful res @ [r]\<rparr>)
            (tr @ ?ev) = (Inr res', tr')"
      by (simp add: send_loop_Cons)
    from Cons.IH[OF this] ev show ?thesis by simp
  next
    case (Some e)
    show ?thesis
    proof (cases e)
      case (Exception cls msg)
      with Some Cons.prems
      have "send_loop self env fp s b (Suc i) rs (res\<lparr>failed := failed res @ [(r, msg)]\<rparr>)
              (tr @ ?ev) = (Inr res', tr')"
        by (simp add: send_loop_Cons)
      from Cons.IH[OF this] ev show ?thesis by simp
    next
      case KeyboardInterrupt
      with Some Cons.prems show ?thesis by (simp add: send_loop_Cons)
    qed
  qed
qed

text \<open>
  Without an interrupt the loop reaches its end, with every recipient in one of the two
  lists of the report.
\<close>

lemma not_interrupted_cases:
  assumes "\<not> recipient_interrupted env i"
  obtains (sent) "outcome env i = None"
  | (failed) cls msg where "outcome env i = Some (Exception cls msg)"
proof (cases "outcome env i")
  case None
  then show ?thesis by (rule sent)
next
  case (Some e)
  with assms show ?thesis
    by (cases e) (auto simp: recipient_interrupted_def intro: failed)
qed

lemma send_loop_complete:
  "no_interrupt env i (length rs) \<Longrightarrow>
   \<exists>res' ev. send_loop self env fp s b i rs res tr = (Inr res', tr @ ev)
     \<and> successful res'
         = successful res @ map snd (filter (\<lambda>(k, r). delivered env k) (enumerate i rs))
     \<and> failed res'
         = failed res @ map (\<lambda>(k, r). (r, failure_reason env k))
                          (filter (\<lambda>(k, r). \<not> delivered env k) (enumerate i rs))
     \<and> length (filter is_FileOpen ev) = length rs
     \<and> sendmail_recipients ev
         = map snd (filter (\<lambda>(k, r). composed env k) (enumerate i rs))
     \<and> map payloads (sent_messages ev)
         = map (\<lambda>(k, r). [file_bytes env k])
             (filter (\<lambda>(k, r). composed env k) (enumerate i rs))
     \<and> Quit \<notin> set ev"
proof (induction rs arbitrary: i res tr)
  case Nil
  then show ?case by simp
next
  case (Cons r rs)
  from Cons.prems have ni: "\<not> recipient_interrupted env i"
    and rest: "no_interrupt env (Suc i) (length rs)"
    by (simp_all add: no_interrupt_Suc)
  note IH = Cons.IH[OF rest]
  let ?ev = "snd (send_one self env fp s b i r)"
  have ev: "length (filter is_FileOpen ?ev) = 1" "Quit \<notin> set ?ev"
    "sendmail_recipients ?ev = (if composed env i then [r] else [])"
    "map payloads (sent_messages ?ev) = (if composed env i then [[file_bytes env i]] else [])"
    using send_one_events[of self env fp s b i r] by blast+
  from ni show ?case
  proof (cases rule: not_interrupted_cases)
    case sent
    let ?res1 = "res\<lparr>successful := successful res @ [r]\<rparr>"
    from IH[of ?res1 "tr @ ?ev"]
    obtain res' ev' where
      "send_loop self env fp s b (Suc i) rs ?res1 (tr @ ?ev) = (Inr res', (tr @ ?ev) @ ev')"
      "successful res' = successful ?res1
         @ map snd (filter (\<lambda>(k, r). delivered env k) (enumerate (Suc i) rs))"
      "failed res' = failed ?res1
         @ map (\<lambda>(k, r). (r, failure_reason env k))
             (filter (\<lambda>(k, r). \<not> delivered env k) (enumerate (Suc i) rs))"
      "length (filter is_FileOpen ev') = length rs"
      "sendmail_recipients ev'
         = map snd (filter (\<lambda>(k, r). composed env k) (enumerate (Suc i) rs))"
      "map payloads (sent_messages ev')
         = map (\<lambda>(k, r). [file_bytes env k])
             (filter (\<lambda>(k, r). composed env k) (enumerate (Suc i) rs))"
      "Quit \<notin> set ev'"
      by blast
    then show ?thesis
      using sent ev
      by (intro exI[of _ res'] exI[of _ "?ev @ ev'"])
         (simp add: send_loop_Cons delivered_def failure_reason_def)
  next
    case (failed cls msg)
    let ?res1 = "res\<lparr>failed := failed res @ [(r, msg)]\<rparr>"
    from IH[of ?res1 "tr @ ?ev"]
    obtain res' ev' where
      "send_loop self env fp s b (Suc i) rs ?res1 (tr @ ?ev) = (Inr res', (tr @ ?ev) @ ev')"
      "successful res' = successful ?res1
         @ map snd (filter (\<lambda>(k, r). delivered env k) (enumerate (Suc i) rs))"
      "failed res' = failed ?res1
         @ map (\<lambda>(k, r). (r, failure_reason env k))
             (filter (\<lambda>(k, r). \<not> delivered env k) (enumerate (Suc i) rs))"
      "length (filter is_FileOpen ev') = length rs"
      "sendmail_recipients ev'
         = map snd (filter (\<lambda>(k, r). composed env k) (enumerate (Suc i) rs))"
      "map payloads (sent_messages ev')
         = map (\<lambda>(k, r). [file_bytes env k])
             (filter (\<lambda>(k, r). composed env k) (enumerate (Suc i) rs))"
      "Quit \<notin> set ev'"
      by blast
    then show ?thesis
      using failed ev
      by (intro exI[of _ res'] exI[of _ "?ev @ ev'"])
         (simp add: send_loop_Cons delivered_def failure_reason_def)
  qed
qed

text \<open>An interrupt ends the loop where it happens, and the loop has not closed anything.\<close>

lemma send_loop_interrupted:
  "\<not> no_interrupt env i (length rs) \<Longrightarrow>
   \<exists>ev. send_loop self env fp s b i rs res tr = (Inl KeyboardInterrupt, tr @ ev)
     \<and> Quit \<notin> set ev"
proof (induction rs arbitrary: i res tr)
  case Nil
  then show ?case by (simp add: no_interrupt_def)
next
  case (Cons r rs)
  let ?ev = "snd (send_one self env fp s b i r)"
  have ev: "Quit \<notin> set ?ev" using send_one_events[of self env fp s b i r] by blast
  show ?case
  proof (cases "recipient_interrupted env i")
    case True
    then obtain e where "outcome env i = Some e" "\<not> is_Exception e"
      by (auto simp: recipient_interrupted_def split: option.splits)
    then have "outcome env i = Some KeyboardInterrupt" by (cases e) auto
    with ev show ?thesis by (simp add: send_loop_Cons)
  next
    case False
    with Cons.prems have rest: "\<not> no_interrupt env (Suc i) (length rs)"
      by (simp add: no_interrupt_Suc)
    note IH = Cons.IH[OF rest]
    from False show ?thesis
    proof (cases rule: not_interrupted_cases)
      case sent
      let ?res1 = "res\<lparr>successful := successful res @ [r]\<rparr>"
      from IH[of ?res1 "tr @ ?ev"]
      obtain ev' where
        "send_loop self env fp s b (Suc i) rs ?res1 (tr @ ?ev)
           = (Inl KeyboardInterrupt, (tr @ ?ev) @ ev')"
        "Quit \<notin> set ev'"
        by blast
      then show ?thesis
        using sent ev by (intro exI[of _ "?ev @ ev'"]) (simp add: send_loop_Cons)
    next
      case (failed cls msg)
      let ?res1 = "res\<lparr>failed := failed res @ [(r, msg)]\<rparr>"
      from IH[of ?res1 "tr @ ?ev"]
      obtain ev' where
        "send_loop self env fp s b (Suc i) rs ?res1 (tr @ ?ev)
           = (Inl KeyboardInterrupt, (tr @ ?ev) @ ev')"
        "Quit \<notin> set ev'"
        by blast
      then show ?thesis
        using failed ev by (intro exI[of _ "?ev @ ev'"]) (simp add: send_loop_Cons)
    qed
  qed
qed

section \<open>\<open>send_file\<close> as a whole\<close>

lemma send_file_opened:
  "configured self \<Longrightarrow> opened env \<Longrightarrow>
   send_file self env fp dl s b =
     (case send_loop self env fp s b 0 dl \<lparr>successful = [], failed = [], total = length dl\<rparr>
             (handshake self) of
        (Inl e, tr) \<Rightarrow> (Inl e, tr)
      | (Inr res, tr) \<Rightarrow>
          (case quit_result env of
             Some e \<Rightarrow> (Inl e, tr @ [Quit])
           | None \<Rightarrow> (Inr res, tr @ [Quit])))"
  by (simp add: send_file_def configured_def opened_def handshake_def Let_def)

lemma send_file_returns_after_loop:
  assumes "fst (send_file self env fp dl s b) = Inr rep"
  shows "\<exists>tr0. send_loop self env fp s b 0 dl
                 \<lparr>successful = [], failed = [], total = length dl\<rparr> (handshake self)
               = (Inr rep, tr0)
             \<and> snd (send_file self env fp dl s b) = tr0 @ [Quit]"
  using assms
  by (auto simp: send_file_def handshake_def Let_def
           split: if_splits option.splits prod.splits sum.splits)

lemma send_file_complete:
  assumes c: "configured self" and op: "opened env" and ni: "no_interrupt env 0 (length dl)"
  shows "\<exists>res ev.
           snd (send_file self env fp dl s b) = handshake self @ ev @ [Quit]
         \<and> fst (send_file self env fp dl s b)
             = (case quit_result env of Some e \<Rightarrow> Inl e | None \<Rightarrow> Inr res)
         \<and> successful res = map snd (filter (\<lambda>(k, r). delivered env k) (enumerate 0 dl))
         \<and> failed res = map (\<lambda>(k, r). (r, failure_reason env k))
                            (filter (\<lambda>(k, r). \<not> delivered env k) (enumerate 0 dl))
         \<and> length (filter is_FileOpen ev) = length dl
         \<and> sendmail_recipients ev
             = map snd (filter (\<lambda>(k, r). composed env k) (enumerate 0 dl))
         \<and> map payloads (sent_messages ev)
             = map (\<lambda>(k, r). [file_bytes env k])
                 (filter (\<lambda>(k, r). composed env k) (enumerate 0 dl))
         \<and> Quit \<notin> set ev"
proof -
  let ?r0 = "\<lparr>successful = [], failed = [], total = length dl\<rparr>"
  from send_loop_complete[OF ni, of self fp s b ?r0 "handshake self"]
  obtain res ev where
    loop: "send_loop self env fp s b 0 dl ?r0 (handshake self) = (Inr res, handshake self @ ev)"
    and rest: "successful res = map snd (filter (\<lambda>(k, r). delivered env k) (enumerate 0 dl))"
      "failed res = map (\<lambda>(k, r). (r, failure_reason env k))
                       (filter (\<lambda>(k, r). \<not> delivered env k) (enumerate 0 dl))"
      "length (filter is_FileOpen ev) = length dl"
      "sendmail_recipients ev = map snd (filter (\<lambda>(k, r). composed env k) (enumerate 0 dl))"
      "map payloads (sent_messages ev)
         = map (\<lambda>(k, r). [file_bytes env k])
             (filter (\<lambda>(k, r). composed env k) (enumerate 0 dl))"
      "Quit \<notin> set ev"
    by auto
  have sf: "send_file self env fp dl s b =
      (case quit_result env of
         Some e \<Rightarrow> (Inl e, handshake self @ ev @ [Quit])
       | None \<Rightarrow> (Inr res, handshake self @ ev @ [Quit]))"
    by (simp add: send_file_opened[OF c op] loop split: option.splits)
  have 1: "snd (send_file self env fp dl s b) = handshake self @ ev @ [Quit]"
    by (simp add: sf split: option.splits)
  have 2: "fst (send_file self env fp dl s b)
             = (case quit_result env of Some e \<Rightarrow> Inl e | None \<Rightarrow> Inr res)"
    by (simp add: sf split: option.splits)
  from 1 2 rest show ?thesis by blast
qed


text \<open>
  Claim C2. Whenever \<open>send_file\<close> returns its report, the successes and the failures
  together are as many as \<open>total\<close>, which is the length of the delivery list, and the
  run has composed a message for that many recipients. It does return a report for
  every pattern of successes and failures by \<open>Exception\<close>, once the credentials are
  set, the session is opened and \<open>quit\<close> succeeds.
\<close>

theorem report_accounts_for_every_recipient:
  "(fst (send_file self env fp dl s b) = Inr rep \<longrightarrow>
      length (successful rep) + length (failed rep) = total rep
      \<and> total rep = length dl
      \<and> length (filter is_FileOpen (snd (send_file self env fp dl s b))) = length dl)
   \<and> (configured self \<and> opened env \<and> no_interrupt env 0 (length dl)
        \<and> quit_result env = None \<longrightarrow>
      (\<exists>r. fst (send_file self env fp dl s b) = Inr r))"
proof -
  have 1: "length (successful rep) + length (failed rep) = total rep
           \<and> total rep = length dl
           \<and> length (filter is_FileOpen (snd (send_file self env fp dl s b))) = length dl"
    if ret: "fst (send_file self env fp dl s b) = Inr rep"
  proof -
    from send_file_returns_after_loop[OF ret] obtain tr0 where
      loop: "send_loop self env fp s b 0 dl
               \<lparr>successful = [], failed = [], total = length dl\<rparr> (handshake self)
             = (Inr rep, tr0)"
      and tr: "snd (send_file self env fp dl s b) = tr0 @ [Quit]"
      by blast
    from send_loop_counts[OF loop] show ?thesis using tr by (simp add: handshake_def)
  qed
  have 2: "\<exists>r. fst (send_file self env fp dl s b) = Inr r"
    if "configured self" "opened env" "no_interrupt env 0 (length dl)"
       "quit_result env = None"
    using send_file_complete[OF that(1,2,3), of fp s b] that(4) by auto
  from 1 2 show ?thesis by blast
qed

text \<open>The theorem at Scenario C: three recipients, the second rejected.\<close>

theorem report_accounts_for_every_recipient_witness:
  "configured example_service \<and> opened rejecting_second
   \<and> no_interrupt rejecting_second 0 (length [''r1@x.com'', ''r2@x.com'', ''r3@x.com''])
   \<and> quit_result rejecting_second = None
   \<and> fst (send_file example_service rejecting_second ''report.pdf''
          [''r1@x.com'', ''r2@x.com'', ''r3@x.com''] (Some ''Report'') (Some ''See attachment.''))
     = Inr \<lparr>successful = [''r1@x.com'', ''r3@x.com''],
            failed = [(''r2@x.com'', ''rejected'')], total = 3\<rparr>
   \<and> length [''r1@x.com'', ''r3@x.com''] + length [(''r2@x.com'', ''rejected'')] = (3::nat)
   \<and> length (filter is_FileOpen
        (snd (send_file example_service rejecting_second ''report.pdf''
                [''r1@x.com'', ''r2@x.com'', ''r3@x.com''] (Some ''Report'')
                (Some ''See attachment.'')))) = 3"
proof -
  have h: "fst (send_file example_service rejecting_second ''report.pdf''
                  [''r1@x.com'', ''r2@x.com'', ''r3@x.com''] (Some ''Report'')
                  (Some ''See attachment.''))
             = Inr \<lparr>successful = [''r1@x.com'', ''r3@x.com''],
                    failed = [(''r2@x.com'', ''rejected'')], total = 3\<rparr>"
    by code_simp
  have h1: "configured example_service" by code_simp
  have h2: "opened rejecting_second" by code_simp
  have h3: "no_interrupt rejecting_second 0 (length [''r1@x.com'', ''r2@x.com'', ''r3@x.com''])"
    by code_simp
  have h4: "quit_result rejecting_second = None" by code_simp
  from report_accounts_for_every_recipient
         [of example_service rejecting_second "''report.pdf''"
             "[''r1@x.com'', ''r2@x.com'', ''r3@x.com'']" "Some ''Report''"
             "Some ''See attachment.''"
             "\<lparr>successful = [''r1@x.com'', ''r3@x.com''],
               failed = [(''r2@x.com'', ''rejected'')], total = 3\<rparr>"]
       h h1 h2 h3 h4
  show ?thesis by simp
qed




text \<open>
  Claim C4, as the code has it. With the credentials set and the session opened,
  \<open>send_file\<close> calls \<open>quit\<close> exactly once, as its last operation, when the recipient loop
  runs to its end, however many sends failed with an \<open>Exception\<close>. There is no release
  on the other exit: a run whose loop is left by an interrupt returns with that
  exception and has not called \<open>quit\<close> at all.
\<close>

theorem session_closed_once_unless_interrupted:
  assumes c: "configured self" and op: "opened env"
  shows "if no_interrupt env 0 (length dl)
         then length (filter (\<lambda>e. e = Quit) (snd (send_file self env fp dl s b))) = 1
              \<and> last (snd (send_file self env fp dl s b)) = Quit
         else fst (send_file self env fp dl s b) = Inl KeyboardInterrupt
              \<and> Quit \<notin> set (snd (send_file self env fp dl s b))"
proof (cases "no_interrupt env 0 (length dl)")
  case True
  from send_file_complete[OF c op True, of fp s b] obtain ev where
    tr: "snd (send_file self env fp dl s b) = handshake self @ ev @ [Quit]"
    and nq: "Quit \<notin> set ev" by blast
  have "filter (\<lambda>e. e = Quit) ev = []" using nq by (auto simp: filter_empty_conv)
  then show ?thesis using True by (simp add: tr handshake_def)
next
  case False
  from send_loop_interrupted[OF False, of self fp s b
        "\<lparr>successful = [], failed = [], total = length dl\<rparr>" "handshake self"]
  obtain ev where
    "send_loop self env fp s b 0 dl \<lparr>successful = [], failed = [], total = length dl\<rparr>
       (handshake self) = (Inl KeyboardInterrupt, handshake self @ ev)"
    "Quit \<notin> set ev"
    by blast
  then show ?thesis using False
    by (simp add: send_file_opened[OF c op] handshake_def)
qed

text \<open>The theorem at Scenario C: one \<open>quit\<close>, after a failed send.\<close>

theorem session_closed_once_unless_interrupted_witness:
  "configured example_service \<and> opened rejecting_second
   \<and> length (filter (\<lambda>e. e = Quit)
        (snd (send_file example_service rejecting_second ''report.pdf''
                [''r1@x.com'', ''r2@x.com'', ''r3@x.com''] (Some ''Report'')
                (Some ''See attachment.'')))) = 1"
proof -
  have h1: "configured example_service" by code_simp
  have h2: "opened rejecting_second" by code_simp
  have h3: "no_interrupt rejecting_second 0 (length [''r1@x.com'', ''r2@x.com'', ''r3@x.com''])"
    by code_simp
  from session_closed_once_unless_interrupted[OF h1 h2,
         of "[''r1@x.com'', ''r2@x.com'', ''r3@x.com'']" "''report.pdf''" "Some ''Report''"
            "Some ''See attachment.''"] h1 h2 h3
  show ?thesis by simp
qed

text \<open>
  Claim C4 as stated fails when the user interrupts the first \<open>sendmail\<close>: the session
  was opened, the run returns with \<open>KeyboardInterrupt\<close>, and its operations end with
  that \<open>sendmail\<close>; \<open>quit\<close> is not among them.
\<close>

theorem interrupted_run_leaves_session_open_counterexample:
  "opened interrupted_first
   \<and> send_file example_service interrupted_first ''report.pdf''
        [''r1@x.com'', ''r2@x.com''] (Some ''Report'') (Some ''See attachment.'')
     = (Inl KeyboardInterrupt,
        [Connect ''smtp.gmail.com'' 587, StartTLS, Login (Some ''me@x.com'') (Some ''secret''),
         FileOpen ''report.pdf'',
         Sendmail (Some ''me@x.com'') ''r1@x.com''
           \<lparr>hdr_from = Some ''me@x.com'', hdr_to = ''r1@x.com'', hdr_subject = ''Report'',
            body_text = ''See attachment.'',
            attachments =
              [\<lparr>content_type = ''application/octet-stream'', transfer_encoding = ''base64'',
                payload = [1, 2, 3],
                disposition = ''attachment; filename= report.pdf''\<rparr>]\<rparr>])
   \<and> Quit \<notin> set (snd (send_file example_service interrupted_first ''report.pdf''
                          [''r1@x.com'', ''r2@x.com''] (Some ''Report'')
                          (Some ''See attachment.'')))"
  by code_simp

text \<open>
  Claim C7, as the code has it. With the credentials set, the session opened and no
  interrupt, \<open>send_file\<close> opens and reads the file once for each recipient of the list,
  inside \<open>create_email_message\<close>, and each message passed to \<open>sendmail\<close> (one for every
  recipient whose file read and whose \<open>as_string\<close> succeeded) carries the bytes read in
  its own iteration.
\<close>

theorem file_read_once_per_recipient:
  assumes c: "configured self" and op: "opened env" and ni: "no_interrupt env 0 (length dl)"
  shows "length (filter is_FileOpen (snd (send_file self env fp dl s b))) = length dl
       \<and> map payloads (sent_messages (snd (send_file self env fp dl s b)))
           = map (\<lambda>(k, r). [file_bytes env k])
               (filter (\<lambda>(k, r). composed env k) (enumerate 0 dl))"
proof -
  from send_file_complete[OF c op ni, of fp s b] obtain ev where
    tr: "snd (send_file self env fp dl s b) = handshake self @ ev @ [Quit]"
    and n: "length (filter is_FileOpen ev) = length dl"
    and p: "map payloads (sent_messages ev)
              = map (\<lambda>(k, r). [file_bytes env k])
                  (filter (\<lambda>(k, r). composed env k) (enumerate 0 dl))"
    by blast
  have 1: "length (filter is_FileOpen (snd (send_file self env fp dl s b))) = length dl"
    by (simp add: tr n handshake_def)
  have 2: "map payloads (sent_messages (snd (send_file self env fp dl s b)))
           = map (\<lambda>(k, r). [file_bytes env k])
               (filter (\<lambda>(k, r). composed env k) (enumerate 0 dl))"
    by (simp add: tr p handshake_def)
  from 1 2 show ?thesis by blast
qed

text \<open>
  The theorem on a file that changes between the reads, with three recipients of which
  the second has a message that cannot be serialised.
\<close>

theorem file_read_once_per_recipient_witness:
  "configured example_service \<and> opened unserialisable_second
   \<and> no_interrupt unserialisable_second 0 (length [''r1@x.com'', ''r2@x.com'', ''r3@x.com''])
   \<and> length (filter is_FileOpen
        (snd (send_file example_service unserialisable_second ''report.pdf''
                [''r1@x.com'', ''r2@x.com'', ''r3@x.com''] (Some ''Report'')
                (Some ''See attachment.'')))) = 3
   \<and> map payloads
        (sent_messages (snd (send_file example_service unserialisable_second ''report.pdf''
                               [''r1@x.com'', ''r2@x.com'', ''r3@x.com''] (Some ''Report'')
                               (Some ''See attachment.''))))
       = [[[0]], [[2]]]"
proof -
  have h1: "configured example_service" by code_simp
  have h2: "opened unserialisable_second" by code_simp
  have h3: "no_interrupt unserialisable_second 0
              (length [''r1@x.com'', ''r2@x.com'', ''r3@x.com''])"
    by code_simp
  have e: "map (\<lambda>(k, r). [file_bytes unserialisable_second k])
             (filter (\<lambda>(k, r). composed unserialisable_second k)
                (enumerate 0 [''r1@x.com'', ''r2@x.com'', ''r3@x.com'']))
             = [[[0]], [[2]]]"
    by code_simp
  from file_read_once_per_recipient[OF h1 h2 h3, of "''report.pdf''" "Some ''Report''"
         "Some ''See attachment.''"] h1 h2 h3 e
  show ?thesis by simp
qed

text \<open>
  Claim C7 as stated fails with two recipients: the file is opened twice, once before
  each \<open>sendmail\<close>, and when it changes in between the two messages carry different
  bytes.
\<close>

theorem file_read_again_for_second_recipient_counterexample:
  "filter (\<lambda>e. is_FileOpen e \<or> is_Sendmail e)
     (snd (send_file example_service changing_file ''report.pdf''
             [''r1@x.com'', ''r2@x.com''] (Some ''Report'') (Some ''See attachment.'')))
     = [FileOpen ''report.pdf'',
        Sendmail (Some ''me@x.com'') ''r1@x.com''
          \<lparr>hdr_from = Some ''me@x.com'', hdr_to = ''r1@x.com'', hdr_subject = ''Report'',
           body_text = ''See attachment.'',
           attachments =
             [\<lparr>content_type = ''application/octet-stream'', transfer_encoding = ''base64'',
               payload = [0], disposition = ''attachment; filename= report.pdf''\<rparr>]\<rparr>,
        FileOpen ''report.pdf'',
        Sendmail (Some ''me@x.com'') ''r2@x.com''
          \<lparr>hdr_from = Some ''me@x.com'', hdr_to = ''r2@x.com'', hdr_subject = ''Report'',
           body_text = ''See attachment.'',
           attachments =
             [\<lparr>content_type = ''application/octet-stream'', transfer_encoding = ''base64'',
               payload = [1], disposition = ''attachment; filename= report.pdf''\<rparr>]\<rparr>]
   \<and> length (filter is_FileOpen
        (snd (send_file example_service changing_file ''report.pdf''
                [''r1@x.com'', ''r2@x.com''] (Some ''Report'') (Some ''See attachment.''))))
       = 2"
  by code_simp

text \<open>
  Claim C10. When \<open>sender_email\<close> or \<open>sender_password\<close> is \<open>None\<close> or empty,
  \<open>send_file\<close> raises \<open>ValueError\<close>: no report is returned and no operation, on the file
  or on the mail server, has been attempted.
\<close>

theorem unset_credentials_raise_before_transport:
  assumes "\<not> truthy (sender_email self) \<or> \<not> truthy (sender_password self)"
  shows "send_file self env fp dl s b =
           (Inl (Exception ''ValueError''
                   ''Email credentials not configured. Use configure_email() method.''), [])"
  using assms by (auto simp: send_file_def Let_def)

text \<open>The theorem on a service that was never configured.\<close>

theorem unset_credentials_raise_before_transport_witness:
  "\<not> truthy (sender_email (FileDeliveryService ''smtp.gmail.com'' 587))
   \<and> send_file (FileDeliveryService ''smtp.gmail.com'' 587) rejecting_second ''report.pdf''
        [''r1@x.com''] None None
     = (Inl (Exception ''ValueError''
               ''Email credentials not configured. Use configure_email() method.''), [])"
proof -
  have h: "\<not> truthy (sender_email (FileDeliveryService ''smtp.gmail.com'' 587))"
    by (simp add: FileDeliveryService_def)
  from unset_credentials_raise_before_transport[OF disjI1[OF h]] h show ?thesis by simp
qed

section \<open>The two commands\<close>

lemma main_handler_one [simp]: "main_handler e = 1"
  by (cases e) simp_all

lemma returns_False_not_True [simp]: "returns_False e \<noteq> Inr True"
  by (cases e) simp_all

lemma validate_file_events:
  "snd (validate_file fs p) = [] \<or> snd (validate_file fs p) = [FileOpen p]"
  by (auto simp: validate_file_def split: option.splits exn.splits)

lemma validate_file_False_iff:
  "fst (validate_file fs p) = Inr False \<longleftrightarrow>
     \<not> path_exists fs \<or> \<not> path_isfile fs
     \<or> (\<exists>cls msg. open_result fs = Some (Exception cls msg))"
  by (auto simp: validate_file_def split: option.splits exn.splits)

lemma main_empty_list:
  assumes "load_delivery_list (list_source env) = Inr []"
  shows "fst (main env a) = 1 \<and> filter is_transport (fst (snd (main env a))) = []"
proof -
  obtain v tr where vt: "validate_file (file_system env) (arg_file a) = (v, tr)"
    by (cases "validate_file (file_system env) (arg_file a)") auto
  from validate_file_events[of "file_system env" "arg_file a"] vt
  have tr: "tr = [] \<or> tr = [FileOpen (arg_file a)]" by simp
  have m: "main env a = (1, [], None) \<or> main env a = (1, tr, None)
           \<or> main env a = (1, tr @ [ListOpen (arg_delivery_list a)], None)"
    by (simp add: main_def Let_def vt assms split: sum.splits bool.splits)
  have 1: "fst (main env a) = 1" using m by auto
  have 2: "filter is_transport (fst (snd (main env a))) = []" using m tr by auto
  from 1 2 show ?thesis by blast
qed

lemma es_main_empty_list:
  assumes "load_recipients (recipients_source env) = Inl (Exception c m)"
  shows "fst (es_main cfg lib env) = Inr False
       \<and> filter is_transport (fst (snd (es_main cfg lib env))) = []"
  by (simp add: es_main_def assms)

lemma es_main_proceeds:
  assumes "validate_config cfg"
    and "load_recipients (recipients_source env) = Inr rs"
    and "get_files_to_send (folder_exists env) (folder_entries env) FILES_FOLDER = Inr files"
    and "files \<noteq> []"
  shows "es_main cfg lib env =
           (case deliver_loop cfg lib env files 0 rs 0 0 [ListOpen RECIPIENTS_FILE] of
              (Inl (FormatError e), tr) \<Rightarrow> (Inr False, tr, None)
            | (Inl (Raised e), tr) \<Rightarrow> (returns_False e, tr, None)
            | (Inr (n, k), tr) \<Rightarrow> (Inr (n > 0), tr, Some (n, k)))"
  using assms by (simp add: es_main_def)

lemma comment_lines_loaded:
  assumes "filter accepted (map strip lines) = []"
  shows "filter (\<lambda>e. e \<noteq> [] \<and> CHR ''@'' \<in> set e) (map strip lines)
           = filter (\<lambda>e. startswith e ''#'' \<and> CHR ''@'' \<in> set e) (map strip lines)"
proof (rule filter_cong[OF refl])
  fix e
  assume "e \<in> set (map strip lines)"
  with assms have "\<not> accepted e" by (auto simp: filter_empty_conv)
  then show "(e \<noteq> [] \<and> CHR ''@'' \<in> set e) = (startswith e ''#'' \<and> CHR ''@'' \<in> set e)"
    by (auto simp: accepted_def)
qed

text \<open>
  Claim C5, as the code has it. When no line of the recipient source is accepted (each
  is blank, a comment, or without \<open>@\<close>), \<open>load_delivery_list\<close> returns the empty list
  without an error, and it is \<open>main\<close> that rejects it: the run exits with code 1 and has
  attempted no operation on the mail server. \<open>load_recipients\<close> does not skip comments:
  on such a source it returns the comment lines that contain an \<open>@\<close>, and raises
  \<open>ValueError\<close> only when there is none; \<open>main\<close> of \<open>email_sender.py\<close> then returns
  \<open>False\<close>, again with no operation on the mail server.
\<close>

theorem empty_list_is_rejected_before_transport:
  assumes "filter accepted (map strip lines) = []"
  shows "load_delivery_list (Inr lines) = Inr []
       \<and> (list_source env = Inr lines \<longrightarrow>
            fst (main env a) = 1 \<and> filter is_transport (fst (snd (main env a))) = [])
       \<and> load_recipients (Inr lines) =
           (if filter (\<lambda>e. startswith e ''#'' \<and> CHR ''@'' \<in> set e) (map strip lines) = []
            then Inl (Exception ''ValueError''
                        ''No valid email addresses found in recipients file'')
            else Inr (filter (\<lambda>e. startswith e ''#'' \<and> CHR ''@'' \<in> set e)
                        (map strip lines)))
       \<and> (recipients_source senv = Inr lines
            \<and> filter (\<lambda>e. startswith e ''#'' \<and> CHR ''@'' \<in> set e) (map strip lines) = []
            \<longrightarrow> fst (es_main cfg lib senv) = Inr False
                \<and> filter is_transport (fst (snd (es_main cfg lib senv))) = [])"
proof -
  let ?cs = "filter (\<lambda>e. startswith e ''#'' \<and> CHR ''@'' \<in> set e) (map strip lines)"
  have a: "load_delivery_list (Inr lines) = Inr []"
    using assms by (simp add: load_delivery_list_def fst_load_loop)
  have "load_recipients (Inr lines) =
           (if filter (\<lambda>e. e \<noteq> [] \<and> CHR ''@'' \<in> set e) (map strip lines) = []
            then Inl (Exception ''ValueError''
                        ''No valid email addresses found in recipients file'')
            else Inr (filter (\<lambda>e. e \<noteq> [] \<and> CHR ''@'' \<in> set e) (map strip lines)))"
    unfolding load_recipients_def load_recipients_filter by (simp add: Let_def)
  then have b: "load_recipients (Inr lines) =
           (if ?cs = []
            then Inl (Exception ''ValueError''
                        ''No valid email addresses found in recipients file'')
            else Inr ?cs)"
    unfolding comment_lines_loaded[OF assms] .
  have c: "fst (main env a) = 1 \<and> filter is_transport (fst (snd (main env a))) = []"
    if "list_source env = Inr lines"
    using main_empty_list[of env a] a that by simp
  have d: "fst (es_main cfg lib senv) = Inr False
           \<and> filter is_transport (fst (snd (es_main cfg lib senv))) = []"
    if "recipients_source senv = Inr lines" "?cs = []"
    using es_main_empty_list[of senv _ _ cfg lib] b that by simp
  from a b c d show ?thesis by blast
qed

text \<open>
  The theorem on a recipient file with a comment and a line without \<open>@\<close>, and on one
  whose comment holds an address.
\<close>

theorem empty_list_is_rejected_before_transport_witness:
  "filter accepted (map strip [''# nobody\<newline>'', ''badline\<newline>'']) = []
   \<and> list_source no_addresses = Inr [''# nobody\<newline>'', ''badline\<newline>'']
   \<and> load_delivery_list (Inr [''# nobody\<newline>'', ''badline\<newline>'']) = Inr []
   \<and> fst (main no_addresses example_args) = 1
   \<and> filter is_transport (fst (snd (main no_addresses example_args))) = []
   \<and> recipients_source no_recipients = Inr [''# nobody\<newline>'', ''badline\<newline>'']
   \<and> load_recipients (Inr [''# nobody\<newline>'', ''badline\<newline>''])
       = Inl (Exception ''ValueError'' ''No valid email addresses found in recipients file'')
   \<and> fst (es_main example_config no_library no_recipients) = Inr False
   \<and> filter is_transport (fst (snd (es_main example_config no_library no_recipients))) = []
   \<and> filter accepted (map strip [''# a@x.com\<newline>'', ''badline\<newline>'']) = []
   \<and> load_delivery_list (Inr [''# a@x.com\<newline>'', ''badline\<newline>'']) = Inr []
   \<and> load_recipients (Inr [''# a@x.com\<newline>'', ''badline\<newline>'']) = Inr [''# a@x.com'']"
proof -
  have h1: "filter accepted (map strip [''# nobody\<newline>'', ''badline\<newline>'']) = []"
    by code_simp
  have h2: "list_source no_addresses = Inr [''# nobody\<newline>'', ''badline\<newline>'']"
    by (simp add: no_addresses_def)
  have h3: "filter (\<lambda>e. startswith e ''#'' \<and> CHR ''@'' \<in> set e)
              (map strip [''# nobody\<newline>'', ''badline\<newline>'']) = []"
    by code_simp
  have h4: "recipients_source no_recipients = Inr [''# nobody\<newline>'', ''badline\<newline>'']"
    by (simp add: no_recipients_def)
  have h5: "filter accepted (map strip [''# a@x.com\<newline>'', ''badline\<newline>'']) = []"
    by code_simp
  have h6: "filter (\<lambda>e. startswith e ''#'' \<and> CHR ''@'' \<in> set e)
              (map strip [''# a@x.com\<newline>'', ''badline\<newline>'']) = [''# a@x.com'']"
    by code_simp
  from empty_list_is_rejected_before_transport
         [OF h1, of no_addresses example_args no_recipients example_config no_library]
       h1 h2 h3 h4
  have 1: "load_delivery_list (Inr [''# nobody\<newline>'', ''badline\<newline>'']) = Inr []
     \<and> fst (main no_addresses example_args) = 1
     \<and> filter is_transport (fst (snd (main no_addresses example_args))) = []
     \<and> load_recipients (Inr [''# nobody\<newline>'', ''badline\<newline>''])
         = Inl (Exception ''ValueError'' ''No valid email addresses found in recipients file'')
     \<and> fst (es_main example_config no_library no_recipients) = Inr False
     \<and> filter is_transport (fst (snd (es_main example_config no_library no_recipients))) = []"
    by simp
  from empty_list_is_rejected_before_transport
         [OF h5, of no_addresses example_args no_recipients example_config no_library]
       h6
  have 2: "load_delivery_list (Inr [''# a@x.com\<newline>'', ''badline\<newline>'']) = Inr []
     \<and> load_recipients (Inr [''# a@x.com\<newline>'', ''badline\<newline>'']) = Inr [''# a@x.com'']"
    by simp
  from 1 2 h1 h2 h4 h5 show ?thesis by blast
qed

text \<open>
  Claim C5 as stated fails for both loaders. On a source without any valid address
  \<open>load_delivery_list\<close> returns the empty list; it does not fail. On a source whose only
  line is a comment with an address in it, no valid address remains either, and
  \<open>load_recipients\<close> returns that line: \<open>main\<close> of \<open>email_sender.py\<close> sends to it and
  returns \<open>True\<close>.
\<close>

theorem empty_delivery_list_loads_without_error_counterexample:
  "filter accepted (map strip [''# nobody\<newline>'', ''badline\<newline>'']) = []
   \<and> load_delivery_list (Inr [''# nobody\<newline>'', ''badline\<newline>'']) = Inr []
   \<and> filter accepted (map strip [''# a@x.com\<newline>'']) = []
   \<and> recipients_source comment_only = Inr [''# a@x.com\<newline>'']
   \<and> load_recipients (Inr [''# a@x.com\<newline>'']) = Inr [''# a@x.com'']
   \<and> sendmail_recipients (fst (snd (es_main example_config no_library comment_only)))
       = [''# a@x.com'']
   \<and> fst (es_main example_config no_library comment_only) = Inr True"
  by code_simp

text \<open>
  Claim C6. When the file to send does not exist, is not a regular file, or cannot be
  opened for reading, \<open>validate_file\<close> returns \<open>False\<close> and \<open>main\<close> exits with code 1
  without having opened the recipient file and without any operation on the mail server.
\<close>

theorem invalid_file_stops_before_list_and_session:
  assumes "\<not> path_exists (file_system env) \<or> \<not> path_isfile (file_system env)
           \<or> (\<exists>cls msg. open_result (file_system env) = Some (Exception cls msg))"
  shows "fst (validate_file (file_system env) (arg_file a)) = Inr False
       \<and> fst (main env a) = 1
       \<and> filter is_ListOpen (fst (snd (main env a))) = []
       \<and> filter is_transport (fst (snd (main env a))) = []"
proof -
  from assms have v: "fst (validate_file (file_system env) (arg_file a)) = Inr False"
    by (simp add: validate_file_False_iff)
  then obtain tr where vt: "validate_file (file_system env) (arg_file a) = (Inr False, tr)"
    by (cases "validate_file (file_system env) (arg_file a)") auto
  from validate_file_events[of "file_system env" "arg_file a"] vt
  have tr: "tr = [] \<or> tr = [FileOpen (arg_file a)]" by simp
  have m: "main env a = (1, [], None) \<or> main env a = (1, tr, None)"
    by (simp add: main_def Let_def vt split: sum.splits)
  have 2: "fst (main env a) = 1" using m by auto
  have 3: "filter is_ListOpen (fst (snd (main env a))) = []" using m tr by auto
  have 4: "filter is_transport (fst (snd (main env a))) = []" using m tr by auto
  from v 2 3 4 show ?thesis by blast
qed

text \<open>The theorem at Scenario D: the path does not exist, and the run does nothing.\<close>

theorem invalid_file_stops_before_list_and_session_witness:
  "\<not> path_exists (file_system missing_file)
   \<and> fst (main missing_file example_args) = 1
   \<and> fst (snd (main missing_file example_args)) = []"
proof -
  have h: "\<not> path_exists (file_system missing_file)"
    by (simp add: missing_file_def)
  have e: "fst (snd (main missing_file example_args)) = []"
    by code_simp
  from invalid_file_stops_before_list_and_session[OF disjI1[OF h], of example_args] h e
  show ?thesis by simp
qed











section \<open>Body templates\<close>

declare py_format.simps [simp del]

lemma emit_emit [simp]: "emit a (emit b r) = emit (a @ b) r"
  by (cases r) (simp_all add: emit_def)

lemma emit_Nil [simp]: "emit [] r = r"
  by (cases r) (simp_all add: emit_def)

lemma emit_Inl [simp]: "emit a (Inl e) = Inl e"
  by (simp add: emit_def)

lemma emit_Inr [simp]: "emit a (Inr s) = Inr (a @ s)"
  by (simp add: emit_def)

lemma py_format_Nil [simp]: "py_format lib n [] = Inr []"
  by (simp add: py_format.simps)

lemma py_format_literal:
  "brace_free t \<Longrightarrow> py_format lib n (t @ rest) = emit t (py_format lib n rest)"
  by (induction t) (simp_all add: brace_free_def py_format.simps)

lemma py_format_brace:
  "py_format lib n (CHR ''{'' # d # ds) =
     (if d = CHR ''{'' then emit ''{'' (py_format lib n ds)
      else (case parse_field (d # ds) of
              Inl e \<Rightarrow> Inl e
            | Inr (field_name, conversion, spec, rest) \<Rightarrow>
                (case render_field lib n field_name conversion spec of
                   Inl e \<Rightarrow> Inl e
                 | Inr out \<Rightarrow> emit out (py_format lib n rest))))"
  by (subst py_format.simps) simp

lemma scan_sender_name:
  "scan_field_name False (''sender_name}'' @ rest) = Inr (''sender_name'', CHR ''}'', rest)"
  by (simp add: consl_def)

lemma parse_sender_name:
  "parse_field (''sender_name}'' @ rest) = Inr (''sender_name'', None, [], rest)"
  unfolding parse_field_def scan_sender_name by simp

lemma render_sender_name: "render_field lib n ''sender_name'' None [] = Inr n"
  by (simp add: render_field_def isdigit_def)

lemma py_format_sender_name:
  "py_format lib n (''{sender_name}'' @ rest) = emit n (py_format lib n rest)"
proof -
  have "py_format lib n (CHR ''{'' # CHR ''s'' # (''ender_name}'' @ rest))
      = (case parse_field (''sender_name}'' @ rest) of
           Inl e \<Rightarrow> Inl e
         | Inr (field_name, conversion, spec, rest) \<Rightarrow>
             (case render_field lib n field_name conversion spec of
                Inl e \<Rightarrow> Inl e
              | Inr out \<Rightarrow> emit out (py_format lib n rest)))"
    by (subst py_format_brace) simp
  also have "\<dots> = emit n (py_format lib n rest)"
    unfolding parse_sender_name by (simp add: render_sender_name)
  finally show ?thesis by simp
qed

lemma scan_plain_name:
  "list_all name_char f \<Longrightarrow>
   scan_field_name False (f @ CHR ''}'' # rest) = Inr (f, CHR ''}'', rest)"
  by (induction f) (simp_all add: consl_def name_char_def)

lemma takeWhile_plain:
  "list_all name_char f \<Longrightarrow>
   takeWhile (\<lambda>c. c \<noteq> CHR ''.'' \<and> c \<noteq> CHR ''['') f = f"
  by (induction f) (simp_all add: name_char_def)

lemma py_format_other_name:
  assumes "other_name f"
  shows "py_format lib n (CHR ''{'' # f @ CHR ''}'' # rest) = Inl (KeyError f)"
proof -
  from assms have pl: "list_all name_char f" and ne: "f \<noteq> []"
    and nd: "get_integer 0 f = NotInteger" and ns: "f \<noteq> ''sender_name''"
    by (simp_all add: other_name_def)
  from ne obtain d ds where f: "f = d # ds" by (cases f) auto
  with pl have d: "d \<noteq> CHR ''{''" by (simp add: name_char_def)
  have pf: "parse_field (d # ds @ CHR ''}'' # rest) = Inr (f, None, [], rest)"
    using scan_plain_name[OF pl, of rest] by (simp add: parse_field_def f)
  have rf: "render_field lib n f None [] = Inl (KeyError f)"
    using ne nd ns by (simp add: render_field_def takeWhile_plain[OF pl] Let_def)
  have "py_format lib n (CHR ''{'' # d # (ds @ CHR ''}'' # rest)) = Inl (KeyError f)"
    using d by (subst py_format_brace) (simp add: pf rf)
  then show ?thesis by (simp add: f)
qed

lemma py_format_template:
  "literal_text segs \<Longrightarrow>
   py_format lib n (template segs @ rest) = emit (filled n segs) (py_format lib n rest)"
proof (induction segs rule: template.induct)
  case 1
  then show ?case by simp
next
  case (2 t segs)
  then show ?case by (simp add: py_format_literal)
next
  case (3 segs)
  have "py_format lib n (''{sender_name}'' @ (template segs @ rest))
          = emit n (py_format lib n (template segs @ rest))"
    by (rule py_format_sender_name)
  with 3 show ?case by simp
qed

text \<open>
  A name is read as a number digit by digit, so that one which begins with too many
  digits raises \<open>ValueError\<close> before the character that makes it a name is seen.
\<close>

lemma py_format_too_many_digits:
  "py_format lib n ''{9999999999999999999x}'' = Inl ValueError"
  by (subst py_format_brace)
     (simp add: parse_field_def render_field_def consl_def isdigit_def PY_SSIZE_T_MAX_def
                Let_def)

lemma py_format_digits_then_letter:
  "py_format lib n ''{9223372036854775807x}'' = Inl (KeyError ''9223372036854775807x'')"
  by (subst py_format_brace)
     (simp add: parse_field_def render_field_def consl_def isdigit_def PY_SSIZE_T_MAX_def
                Let_def)

lemma py_format_positional:
  "py_format lib n ''{0}'' = Inl IndexError"
  by (subst py_format_brace)
     (simp add: parse_field_def render_field_def consl_def isdigit_def PY_SSIZE_T_MAX_def
                Let_def)

text \<open>
  Claim C9, as the code has it. \<open>email_sender.create_email_message\<close> formats the body
  with \<open>str.format\<close>: in a template made of text without braces and of
  \<open>{sender_name}\<close> tokens, every token is replaced by the display name. A token
  \<open>{f}\<close> for any other name (not empty, without the characters \<open>{ } [ . ! :\<close>, and not
  read as a number) is not left in the body: the call raises \<open>KeyError(f)\<close> and composes
  no message. \<open>FileDeliveryService.create_email_message\<close> substitutes
  nothing: the body of its message is the caller's text as it stands, or the default
  text when the caller gives none.
\<close>

theorem body_template_substitution:
  assumes "literal_text segs"
  shows "es_create_email_message lib sender recipient subject (template segs) name
           = Inr \<lparr>hdr_from = Some (if name \<noteq> [] then name @ '' <'' @ sender @ ''>''
                                   else sender),
                  hdr_to = recipient, hdr_subject = subject,
                  body_text = filled name segs, attachments = []\<rparr>
       \<and> (other_name f \<longrightarrow>
            es_create_email_message lib sender recipient subject
              (template segs @ CHR ''{'' # f @ CHR ''}'' # rest) name
              = Inl (KeyError f))
       \<and> (\<exists>m. create_email_message self recipient fp subj (Some body) (Inr d) = Inr m
              \<and> body_text m = (if body \<noteq> [] then body else default_body (basename fp)))"
proof -
  have t: "py_format lib name (template segs) = Inr (filled name segs)"
    using py_format_template[OF assms, of lib name "[]"] by simp
  have 1: "es_create_email_message lib sender recipient subject (template segs) name
           = Inr \<lparr>hdr_from = Some (if name \<noteq> [] then name @ '' <'' @ sender @ ''>''
                                   else sender),
                  hdr_to = recipient, hdr_subject = subject,
                  body_text = filled name segs, attachments = []\<rparr>"
    by (simp add: es_create_email_message_def t)
  have 2: "es_create_email_message lib sender recipient subject
              (template segs @ CHR ''{'' # f @ CHR ''}'' # rest) name
              = Inl (KeyError f)" if "other_name f"
    using py_format_template[OF assms, of lib name "CHR ''{'' # f @ CHR ''}'' # rest"]
      py_format_other_name[OF that, of lib name rest]
    by (simp add: es_create_email_message_def)
  have 3: "\<exists>m. create_email_message self recipient fp subj (Some body) (Inr d) = Inr m
              \<and> body_text m = (if body \<noteq> [] then body else default_body (basename fp))"
    by (simp add: create_email_message_def Let_def)
  from 1 2 3 show ?thesis by blast
qed

text \<open>
  The theorem on a closing line with the token, and on the same line with \<open>{12ab}\<close>, a
  name that begins with digits.
\<close>

theorem body_template_substitution_witness:
  "literal_text [Text ''Best regards, '', SenderName, Text ''!'']
   \<and> other_name ''12ab''
   \<and> es_create_email_message no_library ''me@x.com'' ''r@x.com'' ''Files for Review''
        ''Best regards, {sender_name}!'' ''Ann''
       = Inr \<lparr>hdr_from = Some ''Ann <me@x.com>'', hdr_to = ''r@x.com'',
              hdr_subject = ''Files for Review'', body_text = ''Best regards, Ann!'',
              attachments = []\<rparr>
   \<and> es_create_email_message no_library ''me@x.com'' ''r@x.com'' ''Files for Review''
        ''Best regards, {sender_name}!{12ab}'' ''Ann''
       = Inl (KeyError ''12ab'')"
proof -
  have h1: "literal_text [Text ''Best regards, '', SenderName, Text ''!'']"
    by code_simp
  have h2: "other_name ''12ab''"
    by (simp add: other_name_def name_char_def isdigit_def PY_SSIZE_T_MAX_def)
  from body_template_substitution[OF h1, of no_library "''me@x.com''" "''r@x.com''"
         "''Files for Review''" "''Ann''" "''12ab''" "[]"] h1 h2
  show ?thesis by simp
qed

text \<open>
  Claim C9 as stated fails on a body with the token \<open>{name}\<close>: \<open>email_sender\<close> raises
  \<open>KeyError\<close> where the claim leaves the token in place; and
  \<open>FileDeliveryService\<close> leaves \<open>{sender_name}\<close> itself in the body.
\<close>

theorem unknown_token_raises_KeyError_counterexample:
  "es_create_email_message no_library ''me@x.com'' ''r@x.com'' ''Files for Review''
     ''Hi {name}, from {sender_name}'' ''Ann''
     = Inl (KeyError ''name'')
   \<and> create_email_message example_service ''r@x.com'' ''report.pdf'' (Some ''Report'')
       (Some ''From {sender_name}'') (Inr [1, 2, 3])
     = Inr \<lparr>hdr_from = Some ''me@x.com'', hdr_to = ''r@x.com'', hdr_subject = ''Report'',
            body_text = ''From {sender_name}'',
            attachments =
              [\<lparr>content_type = ''application/octet-stream'', transfer_encoding = ''base64'',
                payload = [1, 2, 3],
                disposition = ''attachment; filename= report.pdf''\<rparr>]\<rparr>"
  by code_simp

end
